theory Spec2Isabelle
  imports Main "HOL-Library.AList"
begin

section \<open>The authentication session manager of \<^verbatim>\<open>src/docs/auth2.md\<close>\<close>

text \<open>
  The session manager is the Redux slice \<^verbatim>\<open>src/store/slices/auth-slice.ts\<close> of the design
  notes: five asynchronous thunks (\<^verbatim>\<open>signIn\<close>, \<^verbatim>\<open>signUp\<close>, \<^verbatim>\<open>signOut\<close>,
  \<^verbatim>\<open>refreshSession\<close>, \<^verbatim>\<open>checkAuth\<close>), the reducers that react to them, the provider
  registry, and the secure storage service. Everything outside the slice (the network, the
  platform stores, the clock, \<^verbatim>\<open>JSON\<close>) is an explicit environment.
\<close>

subsection \<open>Provider interface (\<^verbatim>\<open>base-provider.ts\<close>)\<close>

record AuthCredentials =
  cred_email :: "string option"
  cred_password :: "string option"
  cred_token :: "string option"

text \<open>
  \<^verbatim>\<open>AuthUser\<close> has an index signature \<^verbatim>\<open>[key: string]: any\<close>; the only extra key the slice
  ever reads is \<^verbatim>\<open>expiresAt\<close> (in \<^verbatim>\<open>checkAuth\<close>), so it is a field of its own here.
\<close>

record AuthUser =
  user_id :: string
  email :: string
  name :: "string option"
  picture :: "string option"
  user_expiresAt :: "int option"

record AuthSession =
  user :: AuthUser
  accessToken :: string
  refreshToken :: "string option"
  expiresAt :: "int option"

record AuthResponse =
  success :: bool
  response_session :: "AuthSession option"
  response_error :: "string option"

text \<open>
  What a \<^verbatim>\<open>catch (error: any)\<close> block can receive: an \<^verbatim>\<open>Error\<close> object with its message,
  or a bare string (the payload that \<^verbatim>\<open>unwrap()\<close> throws for a thunk rejected with
  \<^verbatim>\<open>rejectWithValue\<close>). \<^verbatim>\<open>error.message\<close> of a string is \<^verbatim>\<open>undefined\<close>, which \<^verbatim>\<open>||\<close>
  treats like the empty string.
\<close>

datatype thrown = Error string | Value string

fun message :: "thrown \<Rightarrow> string" where
  "message (Error m) = m"
| "message (Value v) = []"

text \<open>
  A provider call is a promise: \<open>Inl m\<close> is a promise rejected with \<^verbatim>\<open>Error(m)\<close>. The two
  optional methods (\<^verbatim>\<open>signUp?\<close>, \<^verbatim>\<open>refreshSession?\<close>) are \<open>None\<close> when the provider omits
  them.
\<close>

record BaseAuthProvider =
  provider_id :: string
  provider_name :: string
  enabled :: bool
  provider_signIn :: "AuthCredentials \<Rightarrow> string + AuthResponse"
  provider_signUp :: "(AuthCredentials \<Rightarrow> string + AuthResponse) option"
  provider_signOut :: "string + bool"
  provider_refreshSession :: "(string \<Rightarrow> string + AuthResponse) option"

subsection \<open>Provider registry (\<^verbatim>\<open>providers/index.ts\<close>)\<close>

text \<open>A JavaScript \<^verbatim>\<open>Map\<close>: insertion order, \<^verbatim>\<open>set\<close> on a present key replaces in place.\<close>

type_synonym AuthProviderRegistry = "(string \<times> BaseAuthProvider) list"

definition registerProvider :: "BaseAuthProvider \<Rightarrow> AuthProviderRegistry \<Rightarrow> AuthProviderRegistry" where
  "registerProvider provider providers =
     (if \<not> enabled provider then providers
      else AList.update (provider_id provider) provider providers)"

definition getProvider :: "AuthProviderRegistry \<Rightarrow> string \<Rightarrow> BaseAuthProvider option" where
  "getProvider providers providerId = map_of providers providerId"

definition getAllProviders :: "AuthProviderRegistry \<Rightarrow> BaseAuthProvider list" where
  "getAllProviders providers = map snd providers"

subsection \<open>Slice state (\<^verbatim>\<open>auth-slice.ts\<close>)\<close>

definition ACCESS_TOKEN_KEY :: string where "ACCESS_TOKEN_KEY = ''auth_access_token''"
definition REFRESH_TOKEN_KEY :: string where "REFRESH_TOKEN_KEY = ''auth_refresh_token''"
definition USER_KEY :: string where "USER_KEY = ''auth_user''"
definition PROVIDER_ID_KEY :: string where "PROVIDER_ID_KEY = ''auth_provider_id''"

record AuthState =
  isAuthenticated :: bool
  isLoading :: bool
  session :: "AuthSession option"
  providerId :: "string option"
  error :: "string option"

definition initialState :: AuthState where
  "initialState = \<lparr>isAuthenticated = False, isLoading = False, session = None,
     providerId = None, error = None\<rparr>"

text \<open>\<^verbatim>\<open>!expiresAt\<close> holds for \<^verbatim>\<open>undefined\<close> and for \<^verbatim>\<open>0\<close>.\<close>

definition isTokenExpired :: "int \<Rightarrow> int option \<Rightarrow> bool" where
  "isTokenExpired date_now expiresAt' =
     (case expiresAt' of
        None \<Rightarrow> False
      | Some t \<Rightarrow> if t = 0 then False else date_now > t)"

subsection \<open>Environment and world\<close>

datatype backend = LocalStorage | SecureStore | AsyncStorage

datatype storage_op = GetOp | SetOp | RemoveOp

text \<open>
  The environment of one run: the registry singleton, \<^verbatim>\<open>Platform.OS === "web"\<close>, which
  calls of which platform store fail (and with which message), \<^verbatim>\<open>JSON.stringify\<close> and
  \<^verbatim>\<open>JSON.parse\<close> on user records (\<open>Inl m\<close>: \<^verbatim>\<open>JSON.parse\<close> throws), and \<^verbatim>\<open>Date.now()\<close>.
\<close>

record Env =
  registry :: AuthProviderRegistry
  platform_web :: bool
  fault :: "backend \<Rightarrow> storage_op \<Rightarrow> string \<Rightarrow> string option"
  JSON_stringify :: "AuthUser \<Rightarrow> string"
  JSON_parse :: "string \<Rightarrow> string + AuthUser"
  date_now :: int

text \<open>
  What can be observed of a run, in order: a call of a platform store (logged when it is
  made, whether or not it then fails) and an action reaching the reducer, by its type.
\<close>

datatype event = Call backend storage_op string | Action string

text \<open>
  The mutable world: the Redux \<^verbatim>\<open>auth\<close> state, the contents of the three stores, and the
  events so far.
\<close>

record World =
  auth :: AuthState
  stores :: "backend \<Rightarrow> string \<rightharpoonup> string"
  trace :: "event list"

subsection \<open>Asynchronous code as state passing with exceptions\<close>

type_synonym 'a io = "World \<Rightarrow> (thrown + 'a) \<times> World"

definition return_io :: "'a \<Rightarrow> 'a io" where
  "return_io x w = (Inr x, w)"

definition throw_io :: "thrown \<Rightarrow> 'a io" where
  "throw_io e w = (Inl e, w)"

definition bind_io :: "'a io \<Rightarrow> ('a \<Rightarrow> 'b io) \<Rightarrow> 'b io" where
  "bind_io m f w = (case m w of (Inl e, w') \<Rightarrow> (Inl e, w') | (Inr x, w') \<Rightarrow> f x w')"

definition catch_io :: "'a io \<Rightarrow> (thrown \<Rightarrow> 'a io) \<Rightarrow> 'a io" where
  "catch_io m h w = (case m w of (Inl e, w') \<Rightarrow> h e w' | (Inr x, w') \<Rightarrow> (Inr x, w'))"

definition await :: "string + 'a \<Rightarrow> 'a io" where
  "await p = (case p of Inl m \<Rightarrow> throw_io (Error m) | Inr x \<Rightarrow> return_io x)"

definition getState :: "AuthState io" where
  "getState w = (Inr (auth w), w)"

subsection \<open>Secure storage service (\<^verbatim>\<open>services/secureStorage.ts\<close>)\<close>

definition store_get :: "Env \<Rightarrow> backend \<Rightarrow> string \<Rightarrow> string option io" where
  "store_get env b key w =
     (let w1 = w\<lparr>trace := trace w @ [Call b GetOp key]\<rparr> in
      case fault env b GetOp key of
        Some m \<Rightarrow> (Inl (Error m), w1)
      | None \<Rightarrow> (Inr (stores w b key), w1))"

definition store_set :: "Env \<Rightarrow> backend \<Rightarrow> string \<Rightarrow> string \<Rightarrow> unit io" where
  "store_set env b key v w =
     (let w1 = w\<lparr>trace := trace w @ [Call b SetOp key]\<rparr> in
      case fault env b SetOp key of
        Some m \<Rightarrow> (Inl (Error m), w1)
      | None \<Rightarrow> (Inr (), w1\<lparr>stores := (stores w)(b := (stores w b)(key \<mapsto> v))\<rparr>))"

definition store_remove :: "Env \<Rightarrow> backend \<Rightarrow> string \<Rightarrow> unit io" where
  "store_remove env b key w =
     (let w1 = w\<lparr>trace := trace w @ [Call b RemoveOp key]\<rparr> in
      case fault env b RemoveOp key of
        Some m \<Rightarrow> (Inl (Error m), w1)
      | None \<Rightarrow> (Inr (), w1\<lparr>stores := (stores w)(b := (stores w b)(key := None))\<rparr>))"

definition webStorage_getItem :: "Env \<Rightarrow> string \<Rightarrow> string option io" where
  "webStorage_getItem env key = store_get env LocalStorage key"

definition webStorage_setItem :: "Env \<Rightarrow> string \<Rightarrow> string \<Rightarrow> unit io" where
  "webStorage_setItem env key v = store_set env LocalStorage key v"

definition webStorage_removeItem :: "Env \<Rightarrow> string \<Rightarrow> unit io" where
  "webStorage_removeItem env key = store_remove env LocalStorage key"

definition nativeStorage_getItem :: "Env \<Rightarrow> string \<Rightarrow> string option io" where
  "nativeStorage_getItem env key =
     catch_io (store_get env SecureStore key) (\<lambda>_. store_get env AsyncStorage key)"

definition nativeStorage_setItem :: "Env \<Rightarrow> string \<Rightarrow> string \<Rightarrow> unit io" where
  "nativeStorage_setItem env key v =
     catch_io (store_set env SecureStore key v) (\<lambda>_. store_set env AsyncStorage key v)"

definition nativeStorage_removeItem :: "Env \<Rightarrow> string \<Rightarrow> unit io" where
  "nativeStorage_removeItem env key =
     catch_io (store_remove env SecureStore key) (\<lambda>_. store_remove env AsyncStorage key)"

definition getItem :: "Env \<Rightarrow> string \<Rightarrow> string option io" where
  "getItem env key =
     (if platform_web env then webStorage_getItem env key else nativeStorage_getItem env key)"

definition setItem :: "Env \<Rightarrow> string \<Rightarrow> string \<Rightarrow> unit io" where
  "setItem env key v =
     (if platform_web env then webStorage_setItem env key v
      else nativeStorage_setItem env key v)"

definition removeItem :: "Env \<Rightarrow> string \<Rightarrow> unit io" where
  "removeItem env key =
     (if platform_web env then webStorage_removeItem env key
      else nativeStorage_removeItem env key)"

text \<open>The store that \<^verbatim>\<open>secureStorage\<close> tries first on the platform of the run.\<close>

definition primary :: "Env \<Rightarrow> backend" where
  "primary env = (if platform_web env then LocalStorage else SecureStore)"


subsection \<open>JavaScript truthiness\<close>

definition truthy :: "string option \<Rightarrow> bool" where
  "truthy s = (case s of None \<Rightarrow> False | Some v \<Rightarrow> v \<noteq> [])"

text \<open>\<^verbatim>\<open>a || b\<close> on strings, with \<open>None\<close> for \<^verbatim>\<open>undefined\<close>.\<close>

definition or_else :: "string option \<Rightarrow> string \<Rightarrow> string" where
  "or_else a b = (case a of None \<Rightarrow> b | Some v \<Rightarrow> if v = [] then b else v)"

subsection \<open>The two providers of the notes\<close>

text \<open>
  \<^verbatim>\<open>api.post(url, body)\<close> of \<^verbatim>\<open>libs/api\<close>: \<open>Inr data\<close> is \<^verbatim>\<open>response.data\<close>, read as
  \<^verbatim>\<open>{user, accessToken, refreshToken, expiresAt}\<close>; \<open>Inl m\<close> is a failed request, with
  \<open>m\<close> the \<^verbatim>\<open>error.response?.data?.message\<close> of the error. The backend is a
  function of the URL alone.
\<close>

type_synonym api = "string \<Rightarrow> string option + AuthSession"

record AuthProviderConfig =
  config_id :: string
  config_name :: string
  config_enabled :: bool

record CredentialsProviderConfig = AuthProviderConfig +
  signInUrl :: string
  signUpUrl :: string
  validateCredentials :: "(AuthCredentials \<Rightarrow> bool) option"

record GoogleProviderConfig = AuthProviderConfig +
  serverAuthUrl :: "string option"

definition post_session :: "api \<Rightarrow> string \<Rightarrow> string \<Rightarrow> string + AuthResponse" where
  "post_session api' url fallback =
     (case api' url of
        Inr data \<Rightarrow>
          Inr \<lparr>success = True, response_session = Some data, response_error = None\<rparr>
      | Inl m \<Rightarrow>
          Inr \<lparr>success = False, response_session = None,
            response_error = Some (or_else m fallback)\<rparr>)"

definition invalid_format :: "CredentialsProviderConfig \<Rightarrow> AuthCredentials \<Rightarrow> bool" where
  "invalid_format config credentials =
     (case validateCredentials config of
        None \<Rightarrow> False
      | Some valid \<Rightarrow> \<not> valid credentials)"

definition CredentialsProvider :: "api \<Rightarrow> CredentialsProviderConfig \<Rightarrow> BaseAuthProvider" where
  "CredentialsProvider api' config =
     \<lparr>provider_id = config_id config, provider_name = config_name config,
      enabled = config_enabled config,
      provider_signIn = (\<lambda>credentials.
        if invalid_format config credentials
        then Inr \<lparr>success = False, response_session = None,
               response_error = Some ''Invalid credentials format''\<rparr>
        else post_session api' (signInUrl config) ''Failed to sign in''),
      provider_signUp = Some (\<lambda>credentials.
        if invalid_format config credentials
        then Inr \<lparr>success = False, response_session = None,
               response_error = Some ''Invalid credentials format''\<rparr>
        else post_session api' (signUpUrl config) ''Failed to sign up''),
      provider_signOut = Inr True,
      provider_refreshSession = Some (\<lambda>refreshToken'.
        post_session api' ''/auth/refresh'' ''Failed to refresh session'')\<rparr>"

text \<open>\<^verbatim>\<open>GoogleProvider\<close> declares no \<^verbatim>\<open>signUp\<close>.\<close>

definition GoogleProvider :: "api \<Rightarrow> GoogleProviderConfig \<Rightarrow> BaseAuthProvider" where
  "GoogleProvider api' config =
     \<lparr>provider_id = config_id config, provider_name = config_name config,
      enabled = config_enabled config,
      provider_signIn = (\<lambda>credentials.
        if truthy (cred_token credentials)
        then (case serverAuthUrl config of
                Some url \<Rightarrow>
                  (if url = []
                   then Inr \<lparr>success = True,
                     response_session = Some
                       \<lparr>user = \<lparr>user_id = ''google-user-id'', email = ''example@gmail.com'',
                          name = Some ''Google User'',
                          picture = Some ''https://example.com/avatar.jpg'',
                          user_expiresAt = None\<rparr>,
                        accessToken = the (cred_token credentials),
                        refreshToken = None, expiresAt = None\<rparr>,
                     response_error = None\<rparr>
                   else post_session api' url ''Failed to sign in with Google'')
              | None \<Rightarrow>
                  Inr \<lparr>success = True,
                    response_session = Some
                      \<lparr>user = \<lparr>user_id = ''google-user-id'', email = ''example@gmail.com'',
                         name = Some ''Google User'',
                         picture = Some ''https://example.com/avatar.jpg'',
                         user_expiresAt = None\<rparr>,
                       accessToken = the (cred_token credentials),
                       refreshToken = None, expiresAt = None\<rparr>,
                    response_error = None\<rparr>)
        else Inr \<lparr>success = False, response_session = None,
               response_error = Some ''No authentication token provided''\<rparr>),
      provider_signUp = None,
      provider_signOut = Inr True,
      provider_refreshSession = Some (\<lambda>refreshToken'.
        post_session api' ''/auth/refresh'' ''Failed to refresh session'')\<rparr>"

subsection \<open>Thunk results\<close>

text \<open>
  What \<^verbatim>\<open>createAsyncThunk\<close> makes of a payload creator: a returned value is dispatched as
  \<^verbatim>\<open>fulfilled\<close>, \<^verbatim>\<open>rejectWithValue(v)\<close> as \<^verbatim>\<open>rejected\<close> with payload \<open>v\<close>, and an
  exception that escapes the payload creator as \<^verbatim>\<open>rejected\<close> with no payload.
\<close>

datatype 'a outcome = Fulfilled 'a | RejectedWithValue string | RejectedThrown thrown

record AuthPayload =
  payload_session :: AuthSession
  payload_providerId :: string

text \<open>\<^verbatim>\<open>action.payload as string\<close> of a rejected action.\<close>

fun rejected_payload :: "'a outcome \<Rightarrow> string option" where
  "rejected_payload (RejectedWithValue v) = Some v"
| "rejected_payload _ = None"

text \<open>
  \<^verbatim>\<open>.unwrap()\<close> of a dispatched thunk: the payload of a fulfilled action is returned, the
  payload of \<^verbatim>\<open>rejectWithValue\<close> is thrown as it is (a string), and otherwise the
  serialised error is thrown, which keeps the message.
\<close>

fun unwrap :: "'a outcome \<Rightarrow> 'a io" where
  "unwrap (Fulfilled p) = return_io p"
| "unwrap (RejectedWithValue v) = throw_io (Value v)"
| "unwrap (RejectedThrown (Error m)) = throw_io (Error m)"
| "unwrap (RejectedThrown (Value v)) = throw_io (Error v)"

subsection \<open>Reducers (\<^verbatim>\<open>createSlice\<close>)\<close>

definition clearError :: "AuthState \<Rightarrow> AuthState" where
  "clearError state = state\<lparr>error := None\<rparr>"

definition signIn_pending :: "AuthState \<Rightarrow> AuthState" where
  "signIn_pending state = state\<lparr>isLoading := True, error := None\<rparr>"

definition signIn_fulfilled :: "AuthPayload \<Rightarrow> AuthState \<Rightarrow> AuthState" where
  "signIn_fulfilled payload state =
     state\<lparr>isLoading := False, isAuthenticated := True,
       session := Some (payload_session payload),
       providerId := Some (payload_providerId payload)\<rparr>"

definition signIn_rejected :: "string option \<Rightarrow> AuthState \<Rightarrow> AuthState" where
  "signIn_rejected payload state = state\<lparr>isLoading := False, error := payload\<rparr>"

definition signUp_pending :: "AuthState \<Rightarrow> AuthState" where
  "signUp_pending state = state\<lparr>isLoading := True, error := None\<rparr>"

definition signUp_fulfilled :: "AuthPayload \<Rightarrow> AuthState \<Rightarrow> AuthState" where
  "signUp_fulfilled payload state =
     state\<lparr>isLoading := False, isAuthenticated := True,
       session := Some (payload_session payload),
       providerId := Some (payload_providerId payload)\<rparr>"

definition signUp_rejected :: "string option \<Rightarrow> AuthState \<Rightarrow> AuthState" where
  "signUp_rejected payload state = state\<lparr>isLoading := False, error := payload\<rparr>"

definition signOut_pending :: "AuthState \<Rightarrow> AuthState" where
  "signOut_pending state = state\<lparr>isLoading := True\<rparr>"

definition signOut_fulfilled :: "AuthState \<Rightarrow> AuthState" where
  "signOut_fulfilled state =
     state\<lparr>isLoading := False, isAuthenticated := False, session := None,
       providerId := None\<rparr>"

definition signOut_rejected :: "AuthState \<Rightarrow> AuthState" where
  "signOut_rejected state =
     state\<lparr>isLoading := False, isAuthenticated := False, session := None,
       providerId := None\<rparr>"

definition checkAuth_pending :: "AuthState \<Rightarrow> AuthState" where
  "checkAuth_pending state = state\<lparr>isLoading := True\<rparr>"

definition checkAuth_fulfilled :: "AuthPayload \<Rightarrow> AuthState \<Rightarrow> AuthState" where
  "checkAuth_fulfilled payload state =
     state\<lparr>isLoading := False, isAuthenticated := True,
       session := Some (payload_session payload),
       providerId := Some (payload_providerId payload)\<rparr>"

definition checkAuth_rejected :: "AuthState \<Rightarrow> AuthState" where
  "checkAuth_rejected state =
     state\<lparr>isLoading := False, isAuthenticated := False, session := None,
       providerId := None\<rparr>"

definition refreshSession_pending :: "AuthState \<Rightarrow> AuthState" where
  "refreshSession_pending state = state\<lparr>isLoading := True\<rparr>"

definition refreshSession_fulfilled :: "AuthPayload \<Rightarrow> AuthState \<Rightarrow> AuthState" where
  "refreshSession_fulfilled payload state =
     state\<lparr>isLoading := False, isAuthenticated := True,
       session := Some (payload_session payload),
       providerId := Some (payload_providerId payload)\<rparr>"

definition refreshSession_rejected :: "AuthState \<Rightarrow> AuthState" where
  "refreshSession_rejected state =
     state\<lparr>isLoading := False, isAuthenticated := False, session := None,
       providerId := None\<rparr>"

text \<open>
  Dispatching an action of the given type: its reducer runs on the \<^verbatim>\<open>auth\<close> part of the
  world. \<^verbatim>\<open>createAsyncThunk("auth/signIn", ...)\<close> names its three actions
  \<^verbatim>\<open>auth/signIn/pending\<close>, \<^verbatim>\<open>auth/signIn/fulfilled\<close> and \<^verbatim>\<open>auth/signIn/rejected\<close>.
\<close>

definition reduce :: "string \<Rightarrow> (AuthState \<Rightarrow> AuthState) \<Rightarrow> World \<Rightarrow> World" where
  "reduce type r w = w\<lparr>auth := r (auth w), trace := trace w @ [Action type]\<rparr>"

subsection \<open>Thunks\<close>

text \<open>
  The writes shared by \<^verbatim>\<open>signIn\<close> and \<^verbatim>\<open>signUp\<close> ("Save auth data in secure storage"):
  the refresh token is written only when it is truthy.
\<close>

definition save_auth_data :: "Env \<Rightarrow> AuthSession \<Rightarrow> string \<Rightarrow> unit io" where
  "save_auth_data env s providerId' =
     bind_io (setItem env ACCESS_TOKEN_KEY (accessToken s)) (\<lambda>_.
     bind_io (case refreshToken s of
                None \<Rightarrow> return_io ()
              | Some rt \<Rightarrow> if rt = [] then return_io ()
                          else setItem env REFRESH_TOKEN_KEY rt) (\<lambda>_.
     bind_io (setItem env USER_KEY (JSON_stringify env (user s))) (\<lambda>_.
     setItem env PROVIDER_ID_KEY providerId')))"

text \<open>The \<^verbatim>\<open>try\<close> block of \<^verbatim>\<open>signIn\<close>.\<close>

definition signIn_try :: "Env \<Rightarrow> string \<Rightarrow> AuthCredentials \<Rightarrow> AuthPayload io" where
  "signIn_try env providerId' credentials =
     (case getProvider (registry env) providerId' of
        None \<Rightarrow> throw_io (Error (''Provider '' @ providerId' @ '' not found''))
      | Some provider \<Rightarrow>
          bind_io (await (provider_signIn provider credentials)) (\<lambda>response.
            case response_session response of
              None \<Rightarrow> throw_io (Error (or_else (response_error response) ''Sign in failed''))
            | Some s \<Rightarrow>
                if \<not> success response
                then throw_io (Error (or_else (response_error response) ''Sign in failed''))
                else bind_io (save_auth_data env s providerId') (\<lambda>_.
                  return_io \<lparr>payload_session = s, payload_providerId = providerId'\<rparr>)))"

definition signIn_thunk :: "Env \<Rightarrow> string \<Rightarrow> AuthCredentials \<Rightarrow> World \<Rightarrow> AuthPayload outcome \<times> World" where
  "signIn_thunk env providerId' credentials w =
     (case signIn_try env providerId' credentials w of
        (Inr p, w') \<Rightarrow> (Fulfilled p, w')
      | (Inl e, w') \<Rightarrow>
          (RejectedWithValue (or_else (Some (message e)) ''Authentication failed''), w'))"

definition signUp_try :: "Env \<Rightarrow> string \<Rightarrow> AuthCredentials \<Rightarrow> AuthPayload io" where
  "signUp_try env providerId' credentials =
     (case getProvider (registry env) providerId' of
        None \<Rightarrow> throw_io (Error (''Provider '' @ providerId' @ '' does not support sign up''))
      | Some provider \<Rightarrow>
          (case provider_signUp provider of
             None \<Rightarrow>
               throw_io (Error (''Provider '' @ providerId' @ '' does not support sign up''))
           | Some signUp' \<Rightarrow>
               bind_io (await (signUp' credentials)) (\<lambda>response.
                 case response_session response of
                   None \<Rightarrow>
                     throw_io (Error (or_else (response_error response) ''Sign up failed''))
                 | Some s \<Rightarrow>
                     if \<not> success response
                     then throw_io (Error (or_else (response_error response) ''Sign up failed''))
                     else bind_io (save_auth_data env s providerId') (\<lambda>_.
                       return_io \<lparr>payload_session = s, payload_providerId = providerId'\<rparr>))))"

definition signUp_thunk :: "Env \<Rightarrow> string \<Rightarrow> AuthCredentials \<Rightarrow> World \<Rightarrow> AuthPayload outcome \<times> World" where
  "signUp_thunk env providerId' credentials w =
     (case signUp_try env providerId' credentials w of
        (Inr p, w') \<Rightarrow> (Fulfilled p, w')
      | (Inl e, w') \<Rightarrow>
          (RejectedWithValue (or_else (Some (message e)) ''Registration failed''), w'))"

text \<open>The four \<^verbatim>\<open>removeItem\<close> calls, in the order of the source; an exception ends them.\<close>

definition clear_storage :: "Env \<Rightarrow> unit io" where
  "clear_storage env =
     bind_io (removeItem env ACCESS_TOKEN_KEY) (\<lambda>_.
     bind_io (removeItem env REFRESH_TOKEN_KEY) (\<lambda>_.
     bind_io (removeItem env USER_KEY) (\<lambda>_.
     removeItem env PROVIDER_ID_KEY)))"

definition signOut_try :: "Env \<Rightarrow> bool io" where
  "signOut_try env =
     bind_io getState (\<lambda>state.
     bind_io (if truthy (providerId state)
              then (case getProvider (registry env) (the (providerId state)) of
                      None \<Rightarrow> return_io ()
                    | Some provider \<Rightarrow>
                        bind_io (await (provider_signOut provider)) (\<lambda>_. return_io ()))
              else return_io ()) (\<lambda>_.
     bind_io (clear_storage env) (\<lambda>_.
     return_io True)))"

definition signOut_thunk :: "Env \<Rightarrow> World \<Rightarrow> bool outcome \<times> World" where
  "signOut_thunk env w =
     (case signOut_try env w of
        (Inr p, w') \<Rightarrow> (Fulfilled p, w')
      | (Inl e, w') \<Rightarrow> (RejectedWithValue (or_else (Some (message e)) ''Sign out failed''), w'))"

definition refreshSession_try :: "Env \<Rightarrow> AuthPayload io" where
  "refreshSession_try env =
     bind_io getState (\<lambda>state.
     bind_io (getItem env REFRESH_TOKEN_KEY) (\<lambda>refreshToken'.
       if \<not> truthy (providerId state) \<or> \<not> truthy refreshToken'
       then throw_io (Error ''No active session found'')
       else
         (let providerId' = the (providerId state); rt = the refreshToken' in
          case getProvider (registry env) providerId' of
            None \<Rightarrow>
              throw_io (Error (''Provider '' @ providerId' @ '' does not support session refresh''))
          | Some provider \<Rightarrow>
              (case provider_refreshSession provider of
                 None \<Rightarrow>
                   throw_io (Error (''Provider '' @ providerId'
                     @ '' does not support session refresh''))
               | Some refresh \<Rightarrow>
                   bind_io (await (refresh rt)) (\<lambda>result.
                     case response_session result of
                       None \<Rightarrow>
                         throw_io (Error (or_else (response_error result)
                           ''Session refresh failed''))
                     | Some s \<Rightarrow>
                         if \<not> success result
                         then throw_io (Error (or_else (response_error result)
                           ''Session refresh failed''))
                         else
                           bind_io (setItem env ACCESS_TOKEN_KEY (accessToken s)) (\<lambda>_.
                           bind_io (case refreshToken s of
                                      None \<Rightarrow> return_io ()
                                    | Some rt' \<Rightarrow>
                                        if rt' = [] then return_io ()
                                        else setItem env REFRESH_TOKEN_KEY rt') (\<lambda>_.
                           bind_io (setItem env USER_KEY (JSON_stringify env (user s))) (\<lambda>_.
                           return_io \<lparr>payload_session = s,
                             payload_providerId = providerId'\<rparr>))))))))"

definition refreshSession_thunk :: "Env \<Rightarrow> World \<Rightarrow> AuthPayload outcome \<times> World" where
  "refreshSession_thunk env w =
     (case refreshSession_try env w of
        (Inr p, w') \<Rightarrow> (Fulfilled p, w')
      | (Inl e, w') \<Rightarrow>
          (RejectedWithValue (or_else (Some (message e)) ''Token refresh failed''), w'))"

subsection \<open>Dispatching a thunk\<close>

text \<open>
  \<^verbatim>\<open>dispatch(thunk(arg))\<close>: the \<^verbatim>\<open>pending\<close> action is dispatched, the payload creator runs,
  and its outcome is dispatched as \<^verbatim>\<open>fulfilled\<close> or \<^verbatim>\<open>rejected\<close>. None of the five thunks
  passes a \<^verbatim>\<open>condition\<close> option, so a dispatch is never skipped. These functions
  describe a thunk that runs with no other thunk in flight; two sign-ins in flight at
  once are described by the threads further down.
\<close>

definition dispatch_signIn :: "Env \<Rightarrow> string \<Rightarrow> AuthCredentials \<Rightarrow> World \<Rightarrow> AuthPayload outcome \<times> World" where
  "dispatch_signIn env providerId' credentials w =
     (case signIn_thunk env providerId' credentials (reduce ''auth/signIn/pending'' signIn_pending w) of
        (Fulfilled p, w') \<Rightarrow> (Fulfilled p, reduce ''auth/signIn/fulfilled'' (signIn_fulfilled p) w')
      | (r, w') \<Rightarrow> (r, reduce ''auth/signIn/rejected'' (signIn_rejected (rejected_payload r)) w'))"

definition dispatch_signUp :: "Env \<Rightarrow> string \<Rightarrow> AuthCredentials \<Rightarrow> World \<Rightarrow> AuthPayload outcome \<times> World" where
  "dispatch_signUp env providerId' credentials w =
     (case signUp_thunk env providerId' credentials (reduce ''auth/signUp/pending'' signUp_pending w) of
        (Fulfilled p, w') \<Rightarrow> (Fulfilled p, reduce ''auth/signUp/fulfilled'' (signUp_fulfilled p) w')
      | (r, w') \<Rightarrow> (r, reduce ''auth/signUp/rejected'' (signUp_rejected (rejected_payload r)) w'))"

definition dispatch_signOut :: "Env \<Rightarrow> World \<Rightarrow> bool outcome \<times> World" where
  "dispatch_signOut env w =
     (case signOut_thunk env (reduce ''auth/signOut/pending'' signOut_pending w) of
        (Fulfilled p, w') \<Rightarrow> (Fulfilled p, reduce ''auth/signOut/fulfilled'' signOut_fulfilled w')
      | (r, w') \<Rightarrow> (r, reduce ''auth/signOut/rejected'' signOut_rejected w'))"

definition dispatch_refreshSession :: "Env \<Rightarrow> World \<Rightarrow> AuthPayload outcome \<times> World" where
  "dispatch_refreshSession env w =
     (case refreshSession_thunk env (reduce ''auth/refreshSession/pending'' refreshSession_pending w) of
        (Fulfilled p, w') \<Rightarrow> (Fulfilled p, reduce ''auth/refreshSession/fulfilled'' (refreshSession_fulfilled p) w')
      | (r, w') \<Rightarrow> (r, reduce ''auth/refreshSession/rejected'' refreshSession_rejected w'))"

text \<open>\<^verbatim>\<open>await dispatch(refreshSession()).unwrap()\<close> inside \<^verbatim>\<open>checkAuth\<close>.\<close>

definition dispatch_refreshSession_unwrap :: "Env \<Rightarrow> AuthPayload io" where
  "dispatch_refreshSession_unwrap env w =
     (case dispatch_refreshSession env w of (r, w') \<Rightarrow> unwrap r w')"

definition checkAuth_try :: "Env \<Rightarrow> AuthPayload io" where
  "checkAuth_try env =
     bind_io (getItem env ACCESS_TOKEN_KEY) (\<lambda>accessToken'.
     bind_io (getItem env REFRESH_TOKEN_KEY) (\<lambda>refreshToken'.
     bind_io (getItem env USER_KEY) (\<lambda>userInfo.
     bind_io (getItem env PROVIDER_ID_KEY) (\<lambda>providerId'.
       if \<not> truthy accessToken' \<or> \<not> truthy userInfo \<or> \<not> truthy providerId'
       then throw_io (Error ''No active session found'')
       else
         (case JSON_parse env (the userInfo) of
            Inl m \<Rightarrow> throw_io (Error m)
          | Inr user' \<Rightarrow>
              (let session' = \<lparr>user = user', accessToken = the accessToken',
                     refreshToken = (if truthy refreshToken' then refreshToken' else None),
                     expiresAt = None\<rparr>
               in
                 if user_expiresAt (user session') \<noteq> None
                    \<and> user_expiresAt (user session') \<noteq> Some 0
                    \<and> isTokenExpired (date_now env) (user_expiresAt (user session'))
                 then
                   (if truthy refreshToken' then dispatch_refreshSession_unwrap env
                    else throw_io (Error ''Session expired''))
                 else return_io \<lparr>payload_session = session',
                        payload_providerId = the providerId'\<rparr>))))))"

text \<open>
  The \<^verbatim>\<open>catch\<close> block of \<^verbatim>\<open>checkAuth\<close> clears the storage before it rejects; a
  \<^verbatim>\<open>removeItem\<close> that throws there escapes the payload creator.
\<close>

definition checkAuth_thunk :: "Env \<Rightarrow> World \<Rightarrow> AuthPayload outcome \<times> World" where
  "checkAuth_thunk env w =
     (case checkAuth_try env w of
        (Inr p, w') \<Rightarrow> (Fulfilled p, w')
      | (Inl e, w') \<Rightarrow>
          (case clear_storage env w' of
             (Inr _, w'') \<Rightarrow>
               (RejectedWithValue (or_else (Some (message e)) ''Authentication check failed''),
                w'')
           | (Inl e', w'') \<Rightarrow> (RejectedThrown e', w'')))"

definition dispatch_checkAuth :: "Env \<Rightarrow> World \<Rightarrow> AuthPayload outcome \<times> World" where
  "dispatch_checkAuth env w =
     (case checkAuth_thunk env (reduce ''auth/checkAuth/pending'' checkAuth_pending w) of
        (Fulfilled p, w') \<Rightarrow> (Fulfilled p, reduce ''auth/checkAuth/fulfilled'' (checkAuth_fulfilled p) w')
      | (r, w') \<Rightarrow> (r, reduce ''auth/checkAuth/rejected'' checkAuth_rejected w'))"

subsection \<open>A thunk in flight\<close>

text \<open>
  The functions \<open>dispatch_\<dots>\<close> above run one thunk from its \<^verbatim>\<open>pending\<close> action to its
  settled action with nothing in between. The real thunk yields at every \<^verbatim>\<open>await\<close>, and
  the actions and storage calls of another thunk in flight can run there. A thread is a
  thunk in flight: it is settled with its outcome, or suspended before its next piece of
  work, which has an effect on the world and leaves the rest of the thread. \<open>advance\<close>
  runs one piece, \<open>run\<close> all of them, and \<open>interleave\<close> advances two threads in the order
  a schedule gives (\<open>True\<close> for the first thread).
\<close>

datatype 'a thread = Settled 'a | Suspended "World \<Rightarrow> World" "World \<Rightarrow> 'a thread"

primrec run :: "'a thread \<Rightarrow> World \<Rightarrow> 'a \<times> World" where
  "run (Settled a) = (\<lambda>w. (a, w))"
| "run (Suspended effect rest) = (\<lambda>w. run (rest w) (effect w))"

fun advance :: "'a thread \<Rightarrow> World \<Rightarrow> 'a thread \<times> World" where
  "advance (Settled a) w = (Settled a, w)"
| "advance (Suspended effect rest) w = (rest w, effect w)"

fun interleave :: "bool list \<Rightarrow> 'a thread \<Rightarrow> 'a thread \<Rightarrow> World \<Rightarrow> ('a thread \<times> 'a thread) \<times> World" where
  "interleave [] t1 t2 w = ((t1, t2), w)"
| "interleave (first # schedule) t1 t2 w =
     (if first
      then (case advance t1 w of (t1', w') \<Rightarrow> interleave schedule t1' t2 w')
      else (case advance t2 w of (t2', w') \<Rightarrow> interleave schedule t1 t2' w'))"

text \<open>
  \<^verbatim>\<open>await m\<close> followed by the rest of the thunk: the awaited call takes effect in one
  piece, and the rest sees whether it resolved or rejected. \<open>settle\<close> is the last piece,
  the \<^verbatim>\<open>fulfilled\<close> or \<^verbatim>\<open>rejected\<close> action reaching the reducer.
\<close>

definition await_then :: "'b io \<Rightarrow> (thrown + 'b \<Rightarrow> 'a thread) \<Rightarrow> 'a thread" where
  "await_then m k = Suspended (\<lambda>w. snd (m w)) (\<lambda>w. k (fst (m w)))"

definition settle :: "string \<Rightarrow> (AuthState \<Rightarrow> AuthState) \<Rightarrow> 'a \<Rightarrow> 'a thread" where
  "settle type r out = Suspended (reduce type r) (\<lambda>w. Settled out)"

text \<open>
  \<^verbatim>\<open>signIn\<close> with its suspension points: the dispatch (the \<^verbatim>\<open>pending\<close> action), the
  provider's answer, each \<^verbatim>\<open>setItem\<close>, and the settled action. Any exception goes to
  the \<^verbatim>\<open>catch\<close> block, which rejects with the message.
\<close>

definition signIn_reject :: "thrown \<Rightarrow> AuthPayload outcome thread" where
  "signIn_reject e =
     settle ''auth/signIn/rejected''
       (signIn_rejected (Some (or_else (Some (message e)) ''Authentication failed'')))
       (RejectedWithValue (or_else (Some (message e)) ''Authentication failed''))"

definition signIn_save_rest :: "Env \<Rightarrow> AuthSession \<Rightarrow> string \<Rightarrow> AuthPayload outcome thread" where
  "signIn_save_rest env s providerId' =
     await_then (setItem env USER_KEY (JSON_stringify env (user s))) (\<lambda>r.
       case r of
         Inl e \<Rightarrow> signIn_reject e
       | Inr _ \<Rightarrow>
           await_then (setItem env PROVIDER_ID_KEY providerId') (\<lambda>r.
             case r of
               Inl e \<Rightarrow> signIn_reject e
             | Inr _ \<Rightarrow>
                 settle ''auth/signIn/fulfilled''
                   (signIn_fulfilled \<lparr>payload_session = s, payload_providerId = providerId'\<rparr>)
                   (Fulfilled \<lparr>payload_session = s, payload_providerId = providerId'\<rparr>)))"

definition signIn_thread :: "Env \<Rightarrow> string \<Rightarrow> AuthCredentials \<Rightarrow> AuthPayload outcome thread" where
  "signIn_thread env providerId' credentials =
     Suspended (reduce ''auth/signIn/pending'' signIn_pending) (\<lambda>w.
       case getProvider (registry env) providerId' of
         None \<Rightarrow> signIn_reject (Error (''Provider '' @ providerId' @ '' not found''))
       | Some provider \<Rightarrow>
           await_then (await (provider_signIn provider credentials)) (\<lambda>r.
             case r of
               Inl e \<Rightarrow> signIn_reject e
             | Inr response \<Rightarrow>
                 (case response_session response of
                    None \<Rightarrow>
                      signIn_reject (Error (or_else (response_error response) ''Sign in failed''))
                  | Some s \<Rightarrow>
                      if \<not> success response
                      then signIn_reject
                        (Error (or_else (response_error response) ''Sign in failed''))
                      else
                        await_then (setItem env ACCESS_TOKEN_KEY (accessToken s)) (\<lambda>r.
                          case r of
                            Inl e \<Rightarrow> signIn_reject e
                          | Inr _ \<Rightarrow>
                              (case refreshToken s of
                                 None \<Rightarrow> signIn_save_rest env s providerId'
                               | Some rt \<Rightarrow>
                                   if rt = [] then signIn_save_rest env s providerId'
                                   else
                                     await_then (setItem env REFRESH_TOKEN_KEY rt) (\<lambda>r.
                                       case r of
                                         Inl e \<Rightarrow> signIn_reject e
                                       | Inr _ \<Rightarrow> signIn_save_rest env s providerId'))))))"

text \<open>
  A thread is blind when what remains to do after a piece of work never depends on the
  world the piece ran in.
\<close>

inductive blind :: "'a thread \<Rightarrow> bool" where
  blind_Settled: "blind (Settled a)"
| blind_Suspended: "(\<And>w w'. rest w = rest w') \<Longrightarrow> (\<And>w. blind (rest w))
    \<Longrightarrow> blind (Suspended effect rest)"

subsection \<open>Scenarios\<close>

text \<open>
  The concrete runs used below. The backend answers a sign-in or sign-up with the session
  of the specification's scenario (user \<open>1\<close>, \<open>a@b.com\<close>, tokens \<open>T1\<close> and \<open>R1\<close>, expiry one
  second before the clock's \<open>10000\<close>) and a refresh with the token \<open>T2\<close>. The serialiser
  is a stand-in for \<^verbatim>\<open>JSON\<close> that round-trips the user records it is given.
\<close>

definition user1 :: AuthUser where
  "user1 = \<lparr>user_id = ''1'', email = ''a@b.com'', name = None, picture = None,
     user_expiresAt = None\<rparr>"

definition session_T1 :: AuthSession where
  "session_T1 = \<lparr>user = user1, accessToken = ''T1'', refreshToken = Some ''R1'',
     expiresAt = Some 9000\<rparr>"

definition session_T2 :: AuthSession where
  "session_T2 = \<lparr>user = user1, accessToken = ''T2'', refreshToken = Some ''R2'',
     expiresAt = Some 99000\<rparr>"

definition scenario_api :: api where
  "scenario_api url =
     (if url = ''/auth/refresh'' then Inr session_T2
      else if url = ''/auth/login'' \<or> url = ''/auth/register'' then Inr session_T1
      else Inl None)"

definition credentials_config :: CredentialsProviderConfig where
  "credentials_config = \<lparr>config_id = ''credentials'', config_name = ''Email'',
     config_enabled = True, signInUrl = ''/auth/login'', signUpUrl = ''/auth/register'',
     validateCredentials = None\<rparr>"

definition google_config :: GoogleProviderConfig where
  "google_config = \<lparr>config_id = ''google'', config_name = ''Google'',
     config_enabled = True, serverAuthUrl = None\<rparr>"

definition scenario_registry :: AuthProviderRegistry where
  "scenario_registry =
     registerProvider (GoogleProvider scenario_api google_config)
       (registerProvider (CredentialsProvider scenario_api credentials_config) [])"

definition stub_stringify :: "AuthUser \<Rightarrow> string" where
  "stub_stringify u = ''id='' @ user_id u @ '';email='' @ email u"

definition stub_parse :: "AuthUser list \<Rightarrow> string \<Rightarrow> string + AuthUser" where
  "stub_parse users text =
     (case find (\<lambda>u. stub_stringify u = text) users of
        Some u \<Rightarrow> Inr u
      | None \<Rightarrow> Inl ''Unexpected token'')"

definition scenario_env :: Env where
  "scenario_env = \<lparr>registry = scenario_registry, platform_web = False,
     fault = (\<lambda>b op key. None), JSON_stringify = stub_stringify,
     JSON_parse = stub_parse [user1], date_now = 10000\<rparr>"

definition fresh_world :: World where
  "fresh_world = \<lparr>auth = initialState, stores = (\<lambda>b. Map.empty), trace = []\<rparr>"

definition login :: AuthCredentials where
  "login = \<lparr>cred_email = Some ''a@b.com'', cred_password = Some ''secret'',
     cred_token = None\<rparr>"

definition id_token :: AuthCredentials where
  "id_token = \<lparr>cred_email = None, cred_password = None, cred_token = Some ''G1''\<rparr>"

text \<open>
  Variants of the scenario: a credentials provider whose remote \<^verbatim>\<open>signOut\<close> rejects, a
  device on which removing the access token fails in both native stores, and a
  credentials provider without \<^verbatim>\<open>refreshSession\<close>.
\<close>

definition revoke_fails_env :: Env where
  "revoke_fails_env = scenario_env\<lparr>registry :=
     registerProvider
       ((CredentialsProvider scenario_api credentials_config)
          \<lparr>provider_signOut := Inl ''Network Error''\<rparr>) []\<rparr>"

definition delete_fails_env :: Env where
  "delete_fails_env = scenario_env\<lparr>fault := (\<lambda>b op key.
     if op = RemoveOp \<and> key = ACCESS_TOKEN_KEY then Some ''Storage unavailable''
     else None)\<rparr>"

definition no_refresh_env :: Env where
  "no_refresh_env = scenario_env\<lparr>registry :=
     registerProvider
       ((CredentialsProvider scenario_api credentials_config)
          \<lparr>provider_refreshSession := None\<rparr>) []\<rparr>"

text \<open>The world after the scenario's credentials sign-in from a fresh start.\<close>

definition signed_in :: "Env \<Rightarrow> World" where
  "signed_in env = snd (dispatch_signIn env ''credentials'' login fresh_world)"

text \<open>
  The scenario five seconds earlier (the session \<open>T1\<close> is not yet expired), and a variant
  in which the backend puts the expiry into the user record itself, with and without a
  provider that can refresh.
\<close>

definition early_env :: Env where
  "early_env = scenario_env\<lparr>date_now := 5000\<rparr>"








section \<open>Properties\<close>

subsection \<open>Basic facts\<close>


lemma bind_io_return [simp]: "bind_io (return_io x) f w = f x w"
  by (simp add: bind_io_def return_io_def)

lemma bind_io_throw [simp]: "bind_io (throw_io e) f w = throw_io e w"
  by (simp add: bind_io_def throw_io_def)

lemma bind_io_Inr: "m w = (Inr x, w') \<Longrightarrow> bind_io m f w = f x w'"
  by (simp add: bind_io_def)

lemma bind_io_Inl: "m w = (Inl e, w') \<Longrightarrow> bind_io m f w = (Inl e, w')"
  by (simp add: bind_io_def)

lemma or_else_nonempty: "d \<noteq> [] \<Longrightarrow> or_else a d \<noteq> []"
  by (simp add: or_else_def split: option.splits)

text \<open>Frame lemmas: what a computation leaves of the \<^verbatim>\<open>auth\<close> state.\<close>

lemma bind_io_auth:
  assumes "\<And>w. auth (snd (m w)) = auth w" and "\<And>x w. auth (snd (f x w)) = auth w"
  shows "auth (snd (bind_io m f w)) = auth w"
proof (cases "m w")
  case (Pair r w')
  have "auth w' = auth w" using assms(1) [of w] Pair by simp
  then show ?thesis using Pair assms(2) by (cases r) (simp_all add: bind_io_def)
qed

lemma catch_io_auth:
  assumes "\<And>w. auth (snd (m w)) = auth w" and "\<And>x w. auth (snd (h x w)) = auth w"
  shows "auth (snd (catch_io m h w)) = auth w"
proof (cases "m w")
  case (Pair r w')
  have "auth w' = auth w" using assms(1) [of w] Pair by simp
  then show ?thesis using Pair assms(2) by (cases r) (simp_all add: catch_io_def)
qed

lemma return_io_auth [simp]: "auth (snd (return_io x w)) = auth w"
  by (simp add: return_io_def)

lemma throw_io_auth [simp]: "auth (snd (throw_io e w)) = auth w"
  by (simp add: throw_io_def)

lemma await_auth [simp]: "auth (snd (await p w)) = auth w"
  by (simp add: await_def split: sum.splits)

lemma store_get_auth [simp]: "auth (snd (store_get env b k w)) = auth w"
  by (simp add: store_get_def Let_def split: option.splits)

lemma store_set_auth [simp]: "auth (snd (store_set env b k v w)) = auth w"
  by (simp add: store_set_def Let_def split: option.splits)

lemma store_remove_auth [simp]: "auth (snd (store_remove env b k w)) = auth w"
  by (simp add: store_remove_def Let_def split: option.splits)

lemma getItem_auth [simp]: "auth (snd (getItem env k w)) = auth w"
  by (simp add: getItem_def webStorage_getItem_def nativeStorage_getItem_def catch_io_auth)

lemma setItem_auth [simp]: "auth (snd (setItem env k v w)) = auth w"
  by (simp add: setItem_def webStorage_setItem_def nativeStorage_setItem_def catch_io_auth)

lemma removeItem_auth [simp]: "auth (snd (removeItem env k w)) = auth w"
  by (simp add: removeItem_def webStorage_removeItem_def nativeStorage_removeItem_def
      catch_io_auth)

lemma save_auth_data_auth [simp]: "auth (snd (save_auth_data env s pid w)) = auth w"
  unfolding save_auth_data_def
  by (intro bind_io_auth) (simp_all split: option.splits)

lemma clear_storage_auth [simp]: "auth (snd (clear_storage env w)) = auth w"
  unfolding clear_storage_def
  by (intro bind_io_auth) simp_all

lemma signIn_try_auth [simp]: "auth (snd (signIn_try env pid c w)) = auth w"
  unfolding signIn_try_def
  by (auto split: option.splits intro!: bind_io_auth)

lemma signIn_thunk_auth: "auth (snd (signIn_thunk env pid c w)) = auth w"
proof -
  have "auth (snd (signIn_try env pid c w)) = auth w" by simp
  then show ?thesis
    by (cases "signIn_try env pid c w") (auto simp: signIn_thunk_def split: sum.splits)
qed

lemma signIn_thunk_outcome:
  "(\<exists>p. fst (signIn_thunk env pid c w) = Fulfilled p)
   \<or> (\<exists>m. m \<noteq> [] \<and> fst (signIn_thunk env pid c w) = RejectedWithValue m)"
  by (cases "signIn_try env pid c w")
    (auto simp: signIn_thunk_def or_else_nonempty split: sum.splits)

lemma storage_keys_distinct [simp]:
  "ACCESS_TOKEN_KEY \<noteq> REFRESH_TOKEN_KEY" "ACCESS_TOKEN_KEY \<noteq> USER_KEY"
  "ACCESS_TOKEN_KEY \<noteq> PROVIDER_ID_KEY" "REFRESH_TOKEN_KEY \<noteq> USER_KEY"
  "REFRESH_TOKEN_KEY \<noteq> PROVIDER_ID_KEY" "USER_KEY \<noteq> PROVIDER_ID_KEY"
  "REFRESH_TOKEN_KEY \<noteq> ACCESS_TOKEN_KEY" "USER_KEY \<noteq> ACCESS_TOKEN_KEY"
  "PROVIDER_ID_KEY \<noteq> ACCESS_TOKEN_KEY" "USER_KEY \<noteq> REFRESH_TOKEN_KEY"
  "PROVIDER_ID_KEY \<noteq> REFRESH_TOKEN_KEY" "PROVIDER_ID_KEY \<noteq> USER_KEY"
  by (simp_all add: ACCESS_TOKEN_KEY_def REFRESH_TOKEN_KEY_def USER_KEY_def PROVIDER_ID_KEY_def)

text \<open>The storage service when no platform call fails.\<close>

lemma getItem_ok:
  assumes "\<And>b op k. fault env b op k = None"
  shows "getItem env k w
    = (Inr (stores w (primary env) k), w\<lparr>trace := trace w @ [Call (primary env) GetOp k]\<rparr>)"
  using assms
  by (simp add: getItem_def webStorage_getItem_def nativeStorage_getItem_def catch_io_def
      store_get_def primary_def Let_def)

lemma setItem_ok:
  assumes "\<And>b op k. fault env b op k = None"
  shows "setItem env k v w
    = (Inr (), w\<lparr>trace := trace w @ [Call (primary env) SetOp k],
         stores := (stores w)(primary env := (stores w (primary env))(k \<mapsto> v))\<rparr>)"
  using assms
  by (simp add: setItem_def webStorage_setItem_def nativeStorage_setItem_def catch_io_def
      store_set_def primary_def Let_def)

lemma removeItem_ok:
  assumes "\<And>b op k. fault env b op k = None"
  shows "removeItem env k w
    = (Inr (), w\<lparr>trace := trace w @ [Call (primary env) RemoveOp k],
         stores := (stores w)(primary env := (stores w (primary env))(k := None))\<rparr>)"
  using assms
  by (simp add: removeItem_def webStorage_removeItem_def nativeStorage_removeItem_def
      catch_io_def store_remove_def primary_def Let_def)

lemma save_auth_data_ok:
  assumes nf: "\<And>b op k. fault env b op k = None"
  shows "save_auth_data env s pid w
    = (Inr (), w\<lparr>trace := trace w @ [Call (primary env) SetOp ACCESS_TOKEN_KEY]
           @ (if truthy (refreshToken s) then [Call (primary env) SetOp REFRESH_TOKEN_KEY] else [])
           @ [Call (primary env) SetOp USER_KEY, Call (primary env) SetOp PROVIDER_ID_KEY],
         stores := (stores w)(primary env :=
           (if truthy (refreshToken s)
            then (stores w (primary env))(ACCESS_TOKEN_KEY \<mapsto> accessToken s,
                   REFRESH_TOKEN_KEY \<mapsto> the (refreshToken s))
            else (stores w (primary env))(ACCESS_TOKEN_KEY \<mapsto> accessToken s))
           (USER_KEY \<mapsto> JSON_stringify env (user s), PROVIDER_ID_KEY \<mapsto> pid))\<rparr>)"
  by (simp add: save_auth_data_def bind_io_def setItem_ok [OF nf] return_io_def truthy_def
      split: option.splits)

text \<open>Unfolding a run on a concrete scenario.\<close>

lemmas scenario_defs = scenario_env_def scenario_registry_def registerProvider_def
  CredentialsProvider_def GoogleProvider_def credentials_config_def google_config_def
  scenario_api_def post_session_def invalid_format_def getProvider_def fresh_world_def
  initialState_def login_def id_token_def session_T1_def session_T2_def user1_def
  stub_stringify_def stub_parse_def primary_def truthy_def

lemmas run_defs = dispatch_signIn_def signIn_thunk_def signIn_try_def bind_io_def await_def
  return_io_def throw_io_def save_auth_data_def setItem_def nativeStorage_setItem_def
  catch_io_def store_set_def reduce_def signIn_pending_def signIn_fulfilled_def
  signIn_rejected_def Let_def or_else_def
  ACCESS_TOKEN_KEY_def REFRESH_TOKEN_KEY_def USER_KEY_def PROVIDER_ID_KEY_def

subsection \<open>The reducers\<close>

text \<open>
  Claim C10. For every AuthState, \<^verbatim>\<open>clearError\<close> sets \<open>error\<close> to null and leaves
  \<open>isAuthenticated\<close>, \<open>isLoading\<close>, \<open>session\<close> and \<open>providerId\<close> as they were.
\<close>

theorem clearError_frame:
  "error (clearError state) = None
   \<and> isAuthenticated (clearError state) = isAuthenticated state
   \<and> isLoading (clearError state) = isLoading state
   \<and> session (clearError state) = session state
   \<and> providerId (clearError state) = providerId state"
  by (simp add: clearError_def)

subsection \<open>Sign-in\<close>

text \<open>
  Claim C7, as the code has it. A \<^verbatim>\<open>signIn\<close> that does not fulfil is rejected with a
  non-empty message; the state it leaves is the prior state with \<open>isLoading\<close> false and
  \<open>error\<close> set to that message. \<open>isAuthenticated\<close>, \<open>session\<close> and \<open>providerId\<close> are
  not touched, so an unauthenticated state stays unauthenticated and an authenticated one
  keeps its session. This holds whatever the storage does.
\<close>

theorem signIn_failure_keeps_session:
  assumes "\<forall>p. fst (dispatch_signIn env pid c w) \<noteq> Fulfilled p"
  shows "\<exists>m. m \<noteq> [] \<and> fst (dispatch_signIn env pid c w) = RejectedWithValue m
           \<and> auth (snd (dispatch_signIn env pid c w))
               = (auth w)\<lparr>isLoading := False, error := Some m\<rparr>"
proof -
  let ?w1 = "reduce ''auth/signIn/pending'' signIn_pending w"
  obtain r w' where t: "signIn_thunk env pid c ?w1 = (r, w')"
    by (cases "signIn_thunk env pid c ?w1")
  have a: "auth w' = auth ?w1" using signIn_thunk_auth [of env pid c ?w1] t by simp
  from assms t have nf: "\<forall>p. r \<noteq> Fulfilled p"
    by (auto simp: dispatch_signIn_def split: outcome.splits)
  with signIn_thunk_outcome [of env pid c ?w1] t
  obtain m where m: "m \<noteq> []" "r = RejectedWithValue m" by auto
  have "dispatch_signIn env pid c w
        = (r, reduce ''auth/signIn/rejected'' (signIn_rejected (rejected_payload r)) w')"
    using t m by (simp add: dispatch_signIn_def)
  then show ?thesis using m a
    by (simp add: reduce_def signIn_rejected_def signIn_pending_def)
qed

theorem signIn_failure_keeps_session_witness:
  "(\<forall>p. fst (dispatch_signIn scenario_env ''google'' login fresh_world) \<noteq> Fulfilled p)
   \<and> (\<exists>m. m \<noteq> []
        \<and> fst (dispatch_signIn scenario_env ''google'' login fresh_world) = RejectedWithValue m
        \<and> auth (snd (dispatch_signIn scenario_env ''google'' login fresh_world))
            = (auth fresh_world)\<lparr>isLoading := False, error := Some m\<rparr>)"
proof -
  have h: "\<forall>p. fst (dispatch_signIn scenario_env ''google'' login fresh_world) \<noteq> Fulfilled p"
    by (simp add: scenario_defs run_defs)
  show ?thesis
    using h signIn_failure_keeps_session [OF h] by simp
qed

text \<open>
  The claim as stated fails for a prior state that is authenticated: after a sign-in with
  the credentials provider, a sign-in with the Google provider without a token is
  rejected, and the state still exposes the first session as authenticated.
\<close>

theorem signIn_failure_counterexample:
  "fst (dispatch_signIn scenario_env ''google'' login
         (snd (dispatch_signIn scenario_env ''credentials'' login fresh_world)))
     = RejectedWithValue ''No authentication token provided''
   \<and> isAuthenticated (auth (snd (dispatch_signIn scenario_env ''google'' login
         (snd (dispatch_signIn scenario_env ''credentials'' login fresh_world)))))
   \<and> session (auth (snd (dispatch_signIn scenario_env ''google'' login
         (snd (dispatch_signIn scenario_env ''credentials'' login fresh_world)))))
     = Some session_T1"
  by (simp add: scenario_defs run_defs)

text \<open>
  Claim C4, as the code has it. When the provider answers a \<^verbatim>\<open>signIn\<close> with a session
  and no storage call fails, the thunk fulfils with that session; it writes the access
  token, the serialised user and the provider id, and the refresh token only when the
  session has a non-empty one (otherwise that key keeps its former value); and every
  write is made before the \<^verbatim>\<open>fulfilled\<close> action reaches the reducer.
\<close>

theorem signIn_persists_then_publishes:
  assumes nf: "\<And>b op k. fault env b op k = None"
    and prov: "getProvider (registry env) pid = Some provider"
    and resp: "provider_signIn provider c = Inr response"
    and ok: "success response" "response_session response = Some s"
    and run: "dispatch_signIn env pid c w = (r, w')"
  shows "r = Fulfilled \<lparr>payload_session = s, payload_providerId = pid\<rparr>
    \<and> stores w' (primary env) ACCESS_TOKEN_KEY = Some (accessToken s)
    \<and> stores w' (primary env) REFRESH_TOKEN_KEY
        = (if truthy (refreshToken s) then refreshToken s
           else stores w (primary env) REFRESH_TOKEN_KEY)
    \<and> stores w' (primary env) USER_KEY = Some (JSON_stringify env (user s))
    \<and> stores w' (primary env) PROVIDER_ID_KEY = Some pid
    \<and> trace w' = trace w @ [Action ''auth/signIn/pending'',
          Call (primary env) SetOp ACCESS_TOKEN_KEY]
        @ (if truthy (refreshToken s) then [Call (primary env) SetOp REFRESH_TOKEN_KEY] else [])
        @ [Call (primary env) SetOp USER_KEY, Call (primary env) SetOp PROVIDER_ID_KEY,
           Action ''auth/signIn/fulfilled'']
    \<and> auth w' = (auth w)\<lparr>isLoading := False, isAuthenticated := True, session := Some s,
          providerId := Some pid, error := None\<rparr>"
  using run prov resp ok
  by (auto simp: dispatch_signIn_def signIn_thunk_def signIn_try_def bind_io_def await_def
      return_io_def save_auth_data_ok [OF nf] reduce_def signIn_pending_def
      signIn_fulfilled_def truthy_def split: option.splits)

theorem signIn_persists_then_publishes_witness:
  "fst (dispatch_signIn scenario_env ''credentials'' login fresh_world)
     = Fulfilled \<lparr>payload_session = session_T1, payload_providerId = ''credentials''\<rparr>
   \<and> stores (snd (dispatch_signIn scenario_env ''credentials'' login fresh_world))
       SecureStore ACCESS_TOKEN_KEY = Some ''T1''
   \<and> stores (snd (dispatch_signIn scenario_env ''credentials'' login fresh_world))
       SecureStore REFRESH_TOKEN_KEY = Some ''R1''"
  using signIn_persists_then_publishes [of scenario_env "''credentials''"
      "CredentialsProvider scenario_api credentials_config" login
      "\<lparr>success = True, response_session = Some session_T1, response_error = None\<rparr>"
      session_T1 fresh_world
      "fst (dispatch_signIn scenario_env ''credentials'' login fresh_world)"
      "snd (dispatch_signIn scenario_env ''credentials'' login fresh_world)"]
  by (simp add: scenario_defs)

text \<open>
  The claim as stated fails for a session without a refresh token: a Google sign-in after
  a credentials sign-in fulfils, makes no write of the refresh-token key, and leaves the
  refresh token \<open>R1\<close> of the earlier session in the store.
\<close>

theorem signIn_refresh_key_counterexample:
  "fst (dispatch_signIn scenario_env ''google'' id_token
         (snd (dispatch_signIn scenario_env ''credentials'' login fresh_world)))
     = Fulfilled \<lparr>payload_session =
         \<lparr>user = \<lparr>user_id = ''google-user-id'', email = ''example@gmail.com'',
            name = Some ''Google User'', picture = Some ''https://example.com/avatar.jpg'',
            user_expiresAt = None\<rparr>,
          accessToken = ''G1'', refreshToken = None, expiresAt = None\<rparr>,
        payload_providerId = ''google''\<rparr>
   \<and> stores (snd (dispatch_signIn scenario_env ''google'' id_token
         (snd (dispatch_signIn scenario_env ''credentials'' login fresh_world))))
       SecureStore REFRESH_TOKEN_KEY = Some ''R1''
   \<and> Call SecureStore SetOp REFRESH_TOKEN_KEY
       \<notin> set (drop 6 (trace (snd (dispatch_signIn scenario_env ''google'' id_token
           (snd (dispatch_signIn scenario_env ''credentials'' login fresh_world))))))"
  by (simp add: scenario_defs run_defs)

subsection \<open>Sign-up\<close>

text \<open>
  Claim C8. For a registered provider that does not implement \<^verbatim>\<open>signUp\<close>, a
  \<^verbatim>\<open>signUp\<close> with its id is rejected with the unsupported-operation message
  \<^verbatim>\<open>Provider <id> does not support sign up\<close>; \<open>isAuthenticated\<close> and \<open>session\<close> are
  as before (an unauthenticated state remains unauthenticated), the stores are unchanged,
  and the run consists of the \<^verbatim>\<open>pending\<close> and \<^verbatim>\<open>rejected\<close> actions alone: no storage
  call is made.
\<close>

theorem signUp_unsupported:
  assumes prov: "getProvider (registry env) pid = Some provider"
    and none: "provider_signUp provider = None"
    and run: "dispatch_signUp env pid c w = (r, w')"
  shows "r = RejectedWithValue (''Provider '' @ pid @ '' does not support sign up'')
    \<and> auth w' = (auth w)\<lparr>isLoading := False,
          error := Some (''Provider '' @ pid @ '' does not support sign up'')\<rparr>
    \<and> isAuthenticated (auth w') = isAuthenticated (auth w)
    \<and> session (auth w') = session (auth w)
    \<and> stores w' = stores w
    \<and> trace w' = trace w @ [Action ''auth/signUp/pending'', Action ''auth/signUp/rejected'']"
  using run prov none
  by (auto simp: dispatch_signUp_def signUp_thunk_def signUp_try_def throw_io_def
      reduce_def signUp_pending_def signUp_rejected_def or_else_def)

theorem signUp_unsupported_witness:
  "fst (dispatch_signUp scenario_env ''google'' login fresh_world)
     = RejectedWithValue ''Provider google does not support sign up''
   \<and> \<not> isAuthenticated (auth (snd (dispatch_signUp scenario_env ''google'' login fresh_world)))
   \<and> stores (snd (dispatch_signUp scenario_env ''google'' login fresh_world))
       = stores fresh_world"
  using signUp_unsupported [of scenario_env "''google''"
      "GoogleProvider scenario_api google_config"
      login fresh_world
      "fst (dispatch_signUp scenario_env ''google'' login fresh_world)"
      "snd (dispatch_signUp scenario_env ''google'' login fresh_world)"]
  by (simp add: scenario_defs)

subsection \<open>Sign-out\<close>

lemma getState_auth [simp]: "auth (snd (getState w)) = auth w"
  by (simp add: getState_def)

lemma signOut_try_auth [simp]: "auth (snd (signOut_try env w)) = auth w"
  unfolding signOut_try_def
  by (intro bind_io_auth) (auto split: option.splits intro!: bind_io_auth)

lemma signOut_thunk_auth: "auth (snd (signOut_thunk env w)) = auth w"
proof -
  have "auth (snd (signOut_try env w)) = auth w" by simp
  then show ?thesis
    by (cases "signOut_try env w") (auto simp: signOut_thunk_def split: sum.splits)
qed

lemma dispatch_signOut_auth:
  "auth (snd (dispatch_signOut env w))
     = (auth w)\<lparr>isLoading := False, isAuthenticated := False, session := None,
         providerId := None\<rparr>"
proof -
  let ?w1 = "reduce ''auth/signOut/pending'' signOut_pending w"
  obtain r u where t: "signOut_thunk env ?w1 = (r, u)" by (cases "signOut_thunk env ?w1")
  have "auth u = auth ?w1" using signOut_thunk_auth [of env ?w1] t by simp
  then show ?thesis using t
    by (cases r)
      (simp_all add: dispatch_signOut_def reduce_def signOut_pending_def
        signOut_fulfilled_def signOut_rejected_def)
qed

lemma clear_storage_ok:
  assumes nf: "\<And>b op k. fault env b op k = None"
  shows "clear_storage env w
    = (Inr (), w\<lparr>trace := trace w @ [Call (primary env) RemoveOp ACCESS_TOKEN_KEY,
           Call (primary env) RemoveOp REFRESH_TOKEN_KEY, Call (primary env) RemoveOp USER_KEY,
           Call (primary env) RemoveOp PROVIDER_ID_KEY],
         stores := (stores w)(primary env := (stores w (primary env))
           (ACCESS_TOKEN_KEY := None, REFRESH_TOKEN_KEY := None, USER_KEY := None,
            PROVIDER_ID_KEY := None))\<rparr>)"
  by (simp add: clear_storage_def bind_io_def removeItem_ok [OF nf])

lemma signOut_ok:
  assumes nf: "\<And>b op k. fault env b op k = None"
    and remote: "case providerId (auth w) of None \<Rightarrow> True
      | Some pid \<Rightarrow> (case getProvider (registry env) pid of None \<Rightarrow> True
          | Some p \<Rightarrow> (case provider_signOut p of Inl m \<Rightarrow> False | Inr b \<Rightarrow> True))"
  shows "dispatch_signOut env w
    = (Fulfilled True,
       w\<lparr>auth := (auth w)\<lparr>isLoading := False, isAuthenticated := False, session := None,
            providerId := None\<rparr>,
         trace := trace w @ [Action ''auth/signOut/pending'',
           Call (primary env) RemoveOp ACCESS_TOKEN_KEY,
           Call (primary env) RemoveOp REFRESH_TOKEN_KEY, Call (primary env) RemoveOp USER_KEY,
           Call (primary env) RemoveOp PROVIDER_ID_KEY, Action ''auth/signOut/fulfilled''],
         stores := (stores w)(primary env := (stores w (primary env))
           (ACCESS_TOKEN_KEY := None, REFRESH_TOKEN_KEY := None, USER_KEY := None,
            PROVIDER_ID_KEY := None))\<rparr>)"
  using remote
  by (auto simp: dispatch_signOut_def signOut_thunk_def signOut_try_def bind_io_def
      getState_def reduce_def signOut_pending_def signOut_fulfilled_def await_def
      return_io_def throw_io_def clear_storage_ok [OF nf] truthy_def
      split: option.splits sum.splits)

lemmas signOut_run_defs = dispatch_signOut_def signOut_thunk_def signOut_try_def getState_def
  clear_storage_def removeItem_def nativeStorage_removeItem_def store_remove_def
  signOut_pending_def signOut_fulfilled_def signOut_rejected_def
  revoke_fails_env_def delete_fails_env_def

text \<open>
  Claim C2, as the code has it. From every state, and whatever the provider and the
  storage do, \<^verbatim>\<open>signOut\<close> ends with \<open>isLoading\<close> and \<open>isAuthenticated\<close> false and
  \<open>session\<close> and \<open>providerId\<close> null, and a second \<^verbatim>\<open>signOut\<close> leaves that state as it
  is. When the provider's remote \<^verbatim>\<open>signOut\<close> resolves and no storage call fails, the
  thunk fulfils, the four keys are removed one after the other in the order access token,
  refresh token, user, provider id, all four then read as absent, and a second
  \<^verbatim>\<open>signOut\<close> fulfils again and leaves the stores as they are.
\<close>

theorem signOut_teardown:
  assumes run1: "dispatch_signOut env w = (r, w')"
    and run2: "dispatch_signOut env w' = (r2, w'')"
  shows "auth w' = (auth w)\<lparr>isLoading := False, isAuthenticated := False, session := None,
             providerId := None\<rparr>
    \<and> auth w'' = auth w'
    \<and> ((\<forall>b op k. fault env b op k = None)
        \<and> (case providerId (auth w) of None \<Rightarrow> True
            | Some pid \<Rightarrow> (case getProvider (registry env) pid of None \<Rightarrow> True
                | Some p \<Rightarrow> (case provider_signOut p of Inl m \<Rightarrow> False | Inr b \<Rightarrow> True)))
        \<longrightarrow> r = Fulfilled True
          \<and> stores w' (primary env) ACCESS_TOKEN_KEY = None
          \<and> stores w' (primary env) REFRESH_TOKEN_KEY = None
          \<and> stores w' (primary env) USER_KEY = None
          \<and> stores w' (primary env) PROVIDER_ID_KEY = None
          \<and> trace w' = trace w @ [Action ''auth/signOut/pending'',
               Call (primary env) RemoveOp ACCESS_TOKEN_KEY,
               Call (primary env) RemoveOp REFRESH_TOKEN_KEY,
               Call (primary env) RemoveOp USER_KEY,
               Call (primary env) RemoveOp PROVIDER_ID_KEY, Action ''auth/signOut/fulfilled'']
          \<and> r2 = Fulfilled True \<and> stores w'' = stores w')"
proof -
  have a1: "auth w' = (auth w)\<lparr>isLoading := False, isAuthenticated := False, session := None,
             providerId := None\<rparr>"
    using dispatch_signOut_auth [of env w] run1 by simp
  have a2: "auth w'' = auth w'"
    using dispatch_signOut_auth [of env w'] run2 a1 by simp
  have st: "r = Fulfilled True
          \<and> stores w' (primary env) ACCESS_TOKEN_KEY = None
          \<and> stores w' (primary env) REFRESH_TOKEN_KEY = None
          \<and> stores w' (primary env) USER_KEY = None
          \<and> stores w' (primary env) PROVIDER_ID_KEY = None
          \<and> trace w' = trace w @ [Action ''auth/signOut/pending'',
               Call (primary env) RemoveOp ACCESS_TOKEN_KEY,
               Call (primary env) RemoveOp REFRESH_TOKEN_KEY,
               Call (primary env) RemoveOp USER_KEY,
               Call (primary env) RemoveOp PROVIDER_ID_KEY, Action ''auth/signOut/fulfilled'']
          \<and> r2 = Fulfilled True \<and> stores w'' = stores w'"
    if nf: "\<forall>b op k. fault env b op k = None"
      and remote: "case providerId (auth w) of None \<Rightarrow> True
        | Some pid \<Rightarrow> (case getProvider (registry env) pid of None \<Rightarrow> True
            | Some p \<Rightarrow> (case provider_signOut p of Inl m \<Rightarrow> False | Inr b \<Rightarrow> True))"
  proof -
    have nf': "\<And>b op k. fault env b op k = None" using nf by simp
    have first: "r = Fulfilled True"
      "stores w' = (stores w)(primary env := (stores w (primary env))
           (ACCESS_TOKEN_KEY := None, REFRESH_TOKEN_KEY := None, USER_KEY := None,
            PROVIDER_ID_KEY := None))"
      "trace w' = trace w @ [Action ''auth/signOut/pending'',
               Call (primary env) RemoveOp ACCESS_TOKEN_KEY,
               Call (primary env) RemoveOp REFRESH_TOKEN_KEY,
               Call (primary env) RemoveOp USER_KEY,
               Call (primary env) RemoveOp PROVIDER_ID_KEY, Action ''auth/signOut/fulfilled'']"
      using signOut_ok [OF nf' remote] run1 by auto
    have "providerId (auth w') = None" using a1 by simp
    then have second: "r2 = Fulfilled True"
      "stores w'' = (stores w')(primary env := (stores w' (primary env))
           (ACCESS_TOKEN_KEY := None, REFRESH_TOKEN_KEY := None, USER_KEY := None,
            PROVIDER_ID_KEY := None))"
      using signOut_ok [OF nf', of w'] run2 by auto
    have "stores w'' = stores w'"
      by (rule ext) (simp add: second(2) first(2))
    then show ?thesis using first second(1) by simp
  qed
  show ?thesis using a1 a2 st by blast
qed

theorem signOut_teardown_witness:
  "fst (dispatch_signOut scenario_env
         (snd (dispatch_signIn scenario_env ''credentials'' login fresh_world)))
     = Fulfilled True
   \<and> \<not> isAuthenticated (auth (snd (dispatch_signOut scenario_env
         (snd (dispatch_signIn scenario_env ''credentials'' login fresh_world)))))
   \<and> stores (snd (dispatch_signOut scenario_env
         (snd (dispatch_signIn scenario_env ''credentials'' login fresh_world))))
       SecureStore ACCESS_TOKEN_KEY = None
   \<and> stores (snd (dispatch_signOut scenario_env
         (snd (dispatch_signIn scenario_env ''credentials'' login fresh_world))))
       SecureStore REFRESH_TOKEN_KEY = None"
  using signOut_teardown [of scenario_env
      "snd (dispatch_signIn scenario_env ''credentials'' login fresh_world)"
      "fst (dispatch_signOut scenario_env
         (snd (dispatch_signIn scenario_env ''credentials'' login fresh_world)))"
      "snd (dispatch_signOut scenario_env
         (snd (dispatch_signIn scenario_env ''credentials'' login fresh_world)))"
      "fst (dispatch_signOut scenario_env (snd (dispatch_signOut scenario_env
         (snd (dispatch_signIn scenario_env ''credentials'' login fresh_world)))))"
      "snd (dispatch_signOut scenario_env (snd (dispatch_signOut scenario_env
         (snd (dispatch_signIn scenario_env ''credentials'' login fresh_world)))))"]
  by (simp add: scenario_defs run_defs)

text \<open>
  The claim as stated fails. When the provider's remote \<^verbatim>\<open>signOut\<close> rejects, the thunk
  is rejected before any removal and the access token stays in the store. When removing
  the access token fails, the thunk is rejected at once: the removal of the refresh token
  is never attempted and the refresh token stays in the store.
\<close>

theorem signOut_counterexample:
  "fst (dispatch_signOut revoke_fails_env
         (snd (dispatch_signIn revoke_fails_env ''credentials'' login fresh_world)))
     = RejectedWithValue ''Network Error''
   \<and> stores (snd (dispatch_signOut revoke_fails_env
         (snd (dispatch_signIn revoke_fails_env ''credentials'' login fresh_world))))
       SecureStore ACCESS_TOKEN_KEY = Some ''T1''
   \<and> fst (dispatch_signOut delete_fails_env
         (snd (dispatch_signIn delete_fails_env ''credentials'' login fresh_world)))
     = RejectedWithValue ''Storage unavailable''
   \<and> stores (snd (dispatch_signOut delete_fails_env
         (snd (dispatch_signIn delete_fails_env ''credentials'' login fresh_world))))
       SecureStore REFRESH_TOKEN_KEY = Some ''R1''
   \<and> Call SecureStore RemoveOp REFRESH_TOKEN_KEY
       \<notin> set (trace (snd (dispatch_signOut delete_fails_env
           (snd (dispatch_signIn delete_fails_env ''credentials'' login fresh_world)))))"
  by (simp add: scenario_defs run_defs signOut_run_defs)

subsection \<open>Refresh\<close>

lemma getItem_stores [simp]: "stores (snd (getItem env k w)) = stores w"
  by (auto simp: getItem_def webStorage_getItem_def nativeStorage_getItem_def catch_io_def
      store_get_def Let_def split: option.splits)

lemma setItem_no_set_fault:
  assumes "\<And>b k. fault env b SetOp k = None"
  shows "fst (setItem env k v w) = Inr ()"
  using assms
  by (simp add: setItem_def webStorage_setItem_def nativeStorage_setItem_def catch_io_def
      store_set_def Let_def)

lemma refreshSession_try_auth [simp]: "auth (snd (refreshSession_try env w)) = auth w"
  unfolding refreshSession_try_def
  by (intro bind_io_auth) (auto simp: Let_def split: option.splits intro!: bind_io_auth)

lemma refreshSession_thunk_auth: "auth (snd (refreshSession_thunk env w)) = auth w"
proof -
  have "auth (snd (refreshSession_try env w)) = auth w" by simp
  then show ?thesis
    by (cases "refreshSession_try env w") (auto simp: refreshSession_thunk_def split: sum.splits)
qed

lemma refreshSession_try_failure_stores:
  assumes nsf: "\<And>b k. fault env b SetOp k = None"
    and fail: "refreshSession_try env w = (Inl e, w')"
  shows "stores w' = stores w"
proof -
  obtain g u where g: "getItem env REFRESH_TOKEN_KEY w = (g, u)"
    by (cases "getItem env REFRESH_TOKEN_KEY w")
  have u: "stores u = stores w" using getItem_stores [of env REFRESH_TOKEN_KEY w] g by simp
  have s: "\<And>k v x. fst (setItem env k v x) = Inr ()" using setItem_no_set_fault [OF nsf] .
  have writes: "\<And>k v x y z. setItem env k v x = (Inl y, z) \<Longrightarrow> False"
    using s by (metis fst_conv sum.distinct(1))
  show ?thesis
    using fail g u
    by (auto simp: refreshSession_try_def bind_io_def getState_def throw_io_def return_io_def
        await_def Let_def split: sum.splits option.splits if_splits prod.splits
        dest: writes)
qed

lemma refreshSession_try_signed_out:
  assumes "providerId (auth w) = None"
  shows "\<exists>e. fst (refreshSession_try env w) = Inl e"
    and "stores (snd (refreshSession_try env w)) = stores w"
proof -
  obtain g u where g: "getItem env REFRESH_TOKEN_KEY w = (g, u)"
    by (cases "getItem env REFRESH_TOKEN_KEY w")
  have u: "stores u = stores w" using getItem_stores [of env REFRESH_TOKEN_KEY w] g by simp
  show "\<exists>e. fst (refreshSession_try env w) = Inl e"
    using assms g
    by (cases g)
      (simp_all add: refreshSession_try_def bind_io_def getState_def throw_io_def truthy_def)
  show "stores (snd (refreshSession_try env w)) = stores w"
    using assms g u
    by (cases g)
      (simp_all add: refreshSession_try_def bind_io_def getState_def throw_io_def truthy_def)
qed

lemmas refresh_run_defs = dispatch_refreshSession_def refreshSession_thunk_def
  refreshSession_try_def getState_def getItem_def nativeStorage_getItem_def store_get_def
  refreshSession_pending_def refreshSession_fulfilled_def refreshSession_rejected_def
  no_refresh_env_def

text \<open>
  Claim C3, as the code has it. Whenever \<^verbatim>\<open>refreshSession\<close> does not fulfil, the state
  it leaves has \<open>isLoading\<close> and \<open>isAuthenticated\<close> false and \<open>session\<close> and
  \<open>providerId\<close> null; \<open>error\<close> is left as it was, and the stores are left as they were
  unless a write failed (so for a missing provider id or refresh token, a provider
  without the capability and a provider that answers with a failure, nothing is cleared).
  A second \<^verbatim>\<open>refreshSession\<close> then fails too and changes neither that state nor the
  stores.
\<close>

theorem refreshSession_failure:
  assumes run1: "dispatch_refreshSession env w = (r, w')"
    and failed: "\<forall>p. r \<noteq> Fulfilled p"
    and run2: "dispatch_refreshSession env w' = (r2, w'')"
  shows "auth w' = (auth w)\<lparr>isLoading := False, isAuthenticated := False, session := None,
             providerId := None\<rparr>
    \<and> error (auth w') = error (auth w)
    \<and> ((\<forall>b k. fault env b SetOp k = None) \<longrightarrow> stores w' = stores w)
    \<and> (\<forall>p. r2 \<noteq> Fulfilled p)
    \<and> auth w'' = auth w'
    \<and> stores w'' = stores w'"
proof -
  let ?w1 = "reduce ''auth/refreshSession/pending'' refreshSession_pending w"
  obtain t u where t: "refreshSession_try env ?w1 = (t, u)"
    by (cases "refreshSession_try env ?w1")
  have au: "auth u = auth ?w1" using refreshSession_try_auth [of env ?w1] t by simp
  from run1 failed t obtain e where e: "t = Inl e"
    by (cases t) (auto simp: dispatch_refreshSession_def refreshSession_thunk_def)
  have w': "w' = reduce ''auth/refreshSession/rejected'' refreshSession_rejected u"
    using run1 t e by (simp add: dispatch_refreshSession_def refreshSession_thunk_def)
  have a1: "auth w' = (auth w)\<lparr>isLoading := False, isAuthenticated := False, session := None,
             providerId := None\<rparr>"
    using w' au by (simp add: reduce_def refreshSession_rejected_def refreshSession_pending_def)
  have s1: "stores w' = stores w" if "\<forall>b k. fault env b SetOp k = None"
  proof -
    have "stores u = stores ?w1"
      using refreshSession_try_failure_stores [of env ?w1 e u] that t e by simp
    then show ?thesis using w' by (simp add: reduce_def)
  qed
  let ?w2 = "reduce ''auth/refreshSession/pending'' refreshSession_pending w'"
  have p2: "providerId (auth ?w2) = None"
    using a1 by (simp add: reduce_def refreshSession_pending_def)
  obtain t2 u2 where t2: "refreshSession_try env ?w2 = (t2, u2)"
    by (cases "refreshSession_try env ?w2")
  from refreshSession_try_signed_out [OF p2, of env] t2
  obtain e2 where e2: "t2 = Inl e2" and su2: "stores u2 = stores ?w2" by auto
  have au2: "auth u2 = auth ?w2" using refreshSession_try_auth [of env ?w2] t2 by simp
  have r2: "r2 = RejectedWithValue (or_else (Some (message e2)) ''Token refresh failed'')"
    and w'': "w'' = reduce ''auth/refreshSession/rejected'' refreshSession_rejected u2"
    using run2 t2 e2 by (simp_all add: dispatch_refreshSession_def refreshSession_thunk_def)
  have a2: "auth w'' = auth w'"
    using w'' au2 a1
    by (simp add: reduce_def refreshSession_rejected_def refreshSession_pending_def)
  have s2: "stores w'' = stores w'"
    using w'' su2 by (simp add: reduce_def)
  show ?thesis using a1 s1 r2 a2 s2 by simp
qed

theorem refreshSession_failure_witness:
  "(\<forall>p. fst (dispatch_refreshSession no_refresh_env (signed_in no_refresh_env)) \<noteq> Fulfilled p)
   \<and> auth (snd (dispatch_refreshSession no_refresh_env (signed_in no_refresh_env)))
       = (auth (signed_in no_refresh_env))\<lparr>isLoading := False, isAuthenticated := False,
           session := None, providerId := None\<rparr>
   \<and> stores (snd (dispatch_refreshSession no_refresh_env (signed_in no_refresh_env)))
       = stores (signed_in no_refresh_env)
   \<and> stores (snd (dispatch_refreshSession no_refresh_env
         (snd (dispatch_refreshSession no_refresh_env (signed_in no_refresh_env)))))
       = stores (snd (dispatch_refreshSession no_refresh_env (signed_in no_refresh_env)))"
proof -
  have h: "\<forall>p. fst (dispatch_refreshSession no_refresh_env (signed_in no_refresh_env))
      \<noteq> Fulfilled p"
    by (simp add: signed_in_def scenario_defs run_defs refresh_run_defs)
  have nsf: "\<forall>b k. fault no_refresh_env b SetOp k = None"
    by (simp add: no_refresh_env_def scenario_env_def)
  show ?thesis
    using h nsf refreshSession_failure [OF surjective_pairing h surjective_pairing]
    by blast
qed

text \<open>
  The claim as stated fails: for a provider without \<^verbatim>\<open>refreshSession\<close>, the refresh
  after a sign-in is rejected, the access token is still in the store, and \<open>error\<close> is
  still null.
\<close>

theorem refreshSession_counterexample:
  "fst (dispatch_refreshSession no_refresh_env
         (snd (dispatch_signIn no_refresh_env ''credentials'' login fresh_world)))
     = RejectedWithValue ''Provider credentials does not support session refresh''
   \<and> stores (snd (dispatch_refreshSession no_refresh_env
         (snd (dispatch_signIn no_refresh_env ''credentials'' login fresh_world))))
       SecureStore ACCESS_TOKEN_KEY = Some ''T1''
   \<and> error (auth (snd (dispatch_refreshSession no_refresh_env
         (snd (dispatch_signIn no_refresh_env ''credentials'' login fresh_world)))))
     = None"
  by (simp add: scenario_defs run_defs refresh_run_defs)

subsection \<open>Restoring a session\<close>

lemma dispatch_signIn_ok:
  assumes nf: "\<And>b op k. fault env b op k = None"
    and prov: "getProvider (registry env) pid = Some provider"
    and resp: "provider_signIn provider c = Inr response"
    and ok: "success response" "response_session response = Some s"
  shows "dispatch_signIn env pid c w
    = (Fulfilled \<lparr>payload_session = s, payload_providerId = pid\<rparr>,
       w\<lparr>auth := (auth w)\<lparr>isLoading := False, isAuthenticated := True, session := Some s,
            providerId := Some pid, error := None\<rparr>,
         trace := trace w @ [Action ''auth/signIn/pending'',
             Call (primary env) SetOp ACCESS_TOKEN_KEY]
           @ (if truthy (refreshToken s) then [Call (primary env) SetOp REFRESH_TOKEN_KEY]
              else [])
           @ [Call (primary env) SetOp USER_KEY, Call (primary env) SetOp PROVIDER_ID_KEY,
              Action ''auth/signIn/fulfilled''],
         stores := (stores w)(primary env :=
           (if truthy (refreshToken s)
            then (stores w (primary env))(ACCESS_TOKEN_KEY \<mapsto> accessToken s,
                   REFRESH_TOKEN_KEY \<mapsto> the (refreshToken s))
            else (stores w (primary env))(ACCESS_TOKEN_KEY \<mapsto> accessToken s))
           (USER_KEY \<mapsto> JSON_stringify env (user s), PROVIDER_ID_KEY \<mapsto> pid))\<rparr>)"
  using prov resp ok
  by (simp add: dispatch_signIn_def signIn_thunk_def signIn_try_def bind_io_def await_def
      return_io_def save_auth_data_ok [OF nf] reduce_def signIn_pending_def
      signIn_fulfilled_def)

lemma checkAuth_try_ok:
  assumes nf: "\<And>b op k. fault env b op k = None"
  shows "checkAuth_try env w =
    (let a = stores w (primary env) ACCESS_TOKEN_KEY;
         rt = stores w (primary env) REFRESH_TOKEN_KEY;
         ui = stores w (primary env) USER_KEY;
         sp = stores w (primary env) PROVIDER_ID_KEY;
         w4 = w\<lparr>trace := trace w @ [Call (primary env) GetOp ACCESS_TOKEN_KEY,
           Call (primary env) GetOp REFRESH_TOKEN_KEY, Call (primary env) GetOp USER_KEY,
           Call (primary env) GetOp PROVIDER_ID_KEY]\<rparr>
     in if \<not> truthy a \<or> \<not> truthy ui \<or> \<not> truthy sp
        then (Inl (Error ''No active session found''), w4)
        else (case JSON_parse env (the ui) of
                Inl m \<Rightarrow> (Inl (Error m), w4)
              | Inr u \<Rightarrow>
                  if user_expiresAt u \<noteq> None \<and> user_expiresAt u \<noteq> Some 0
                     \<and> isTokenExpired (date_now env) (user_expiresAt u)
                  then (if truthy rt then dispatch_refreshSession_unwrap env w4
                        else (Inl (Error ''Session expired''), w4))
                  else (Inr \<lparr>payload_session =
                          \<lparr>user = u, accessToken = the a,
                           refreshToken = (if truthy rt then rt else None),
                           expiresAt = None\<rparr>,
                        payload_providerId = the sp\<rparr>, w4)))"
  by (simp add: checkAuth_try_def bind_io_def getItem_ok [OF nf] Let_def throw_io_def
      return_io_def split: sum.splits)

lemma dispatch_checkAuth_restores:
  assumes nf: "\<And>b op k. fault env b op k = None"
    and stored: "stores w (primary env) ACCESS_TOKEN_KEY = Some a" "a \<noteq> []"
      "stores w (primary env) USER_KEY = Some ui" "ui \<noteq> []"
      "stores w (primary env) PROVIDER_ID_KEY = Some sp" "sp \<noteq> []"
    and parsed: "JSON_parse env ui = Inr u"
    and fresh: "\<not> isTokenExpired (date_now env) (user_expiresAt u)"
  shows "dispatch_checkAuth env w
    = (Fulfilled \<lparr>payload_session = \<lparr>user = u, accessToken = a,
           refreshToken = (if truthy (stores w (primary env) REFRESH_TOKEN_KEY)
                           then stores w (primary env) REFRESH_TOKEN_KEY else None),
           expiresAt = None\<rparr>, payload_providerId = sp\<rparr>,
       w\<lparr>auth := (auth w)\<lparr>isLoading := False, isAuthenticated := True,
            session := Some \<lparr>user = u, accessToken = a,
              refreshToken = (if truthy (stores w (primary env) REFRESH_TOKEN_KEY)
                              then stores w (primary env) REFRESH_TOKEN_KEY else None),
              expiresAt = None\<rparr>,
            providerId := Some sp\<rparr>,
         trace := trace w @ [Action ''auth/checkAuth/pending'',
           Call (primary env) GetOp ACCESS_TOKEN_KEY,
           Call (primary env) GetOp REFRESH_TOKEN_KEY, Call (primary env) GetOp USER_KEY,
           Call (primary env) GetOp PROVIDER_ID_KEY, Action ''auth/checkAuth/fulfilled'']\<rparr>)"
proof -
  let ?wp = "reduce ''auth/checkAuth/pending'' checkAuth_pending w"
  have sp: "stores ?wp = stores w" by (simp add: reduce_def)
  have tr: "checkAuth_try env ?wp
    = (Inr \<lparr>payload_session = \<lparr>user = u, accessToken = a,
           refreshToken = (if truthy (stores w (primary env) REFRESH_TOKEN_KEY)
                           then stores w (primary env) REFRESH_TOKEN_KEY else None),
           expiresAt = None\<rparr>, payload_providerId = sp\<rparr>,
       ?wp\<lparr>trace := trace ?wp @ [Call (primary env) GetOp ACCESS_TOKEN_KEY,
           Call (primary env) GetOp REFRESH_TOKEN_KEY, Call (primary env) GetOp USER_KEY,
           Call (primary env) GetOp PROVIDER_ID_KEY]\<rparr>)"
    unfolding checkAuth_try_ok [OF nf]
    using stored parsed fresh
    by (simp add: sp Let_def truthy_def)
  show ?thesis
    by (simp add: dispatch_checkAuth_def checkAuth_thunk_def tr)
       (simp add: reduce_def checkAuth_fulfilled_def checkAuth_pending_def)
qed

text \<open>
  Claim C5, as the code has it. After a \<^verbatim>\<open>signIn\<close> that the provider answers with a
  session (non-empty access token and provider id, no storage failure, a user record that
  \<^verbatim>\<open>JSON\<close> round-trips and whose own \<open>expiresAt\<close> is not past), an immediately
  following \<^verbatim>\<open>checkAuth\<close> fulfils and leaves the stores as they are. The session it
  exposes has the same access token and the same user; its refresh token is the session's
  when that is non-empty and otherwise whatever non-empty value the store held before the
  sign-in; and its \<open>expiresAt\<close> is always absent, because the session's \<open>expiresAt\<close> is
  not persisted.
\<close>

theorem restoreSession_after_signIn:
  assumes nf: "\<And>b op k. fault env b op k = None"
    and prov: "getProvider (registry env) pid = Some provider"
    and resp: "provider_signIn provider c = Inr response"
    and ok: "success response" "response_session response = Some s"
    and json: "JSON_parse env (JSON_stringify env (user s)) = Inr (user s)"
    and nonempty: "accessToken s \<noteq> []" "pid \<noteq> []" "JSON_stringify env (user s) \<noteq> []"
    and fresh: "\<not> isTokenExpired (date_now env) (user_expiresAt (user s))"
    and rt: "rt = (if truthy (refreshToken s) then refreshToken s
                   else if truthy (stores w (primary env) REFRESH_TOKEN_KEY)
                        then stores w (primary env) REFRESH_TOKEN_KEY else None)"
    and run1: "dispatch_signIn env pid c w = (r1, w1)"
    and run2: "dispatch_checkAuth env w1 = (r2, w2)"
  shows "r1 = Fulfilled \<lparr>payload_session = s, payload_providerId = pid\<rparr>
    \<and> r2 = Fulfilled \<lparr>payload_session = s\<lparr>refreshToken := rt, expiresAt := None\<rparr>,
             payload_providerId = pid\<rparr>
    \<and> isAuthenticated (auth w2)
    \<and> session (auth w2) = Some (s\<lparr>refreshToken := rt, expiresAt := None\<rparr>)
    \<and> providerId (auth w2) = Some pid
    \<and> stores w2 = stores w1"
proof -
  note first = dispatch_signIn_ok [OF nf prov resp ok, of w]
  have r1: "r1 = Fulfilled \<lparr>payload_session = s, payload_providerId = pid\<rparr>"
    using first run1 by simp
  have sw: "stores w1 (primary env) ACCESS_TOKEN_KEY = Some (accessToken s)"
    "stores w1 (primary env) USER_KEY = Some (JSON_stringify env (user s))"
    "stores w1 (primary env) PROVIDER_ID_KEY = Some pid"
    using first run1 by (auto simp: truthy_def split: option.splits)
  have sr: "stores w1 (primary env) REFRESH_TOKEN_KEY
      = (if truthy (refreshToken s) then refreshToken s
         else stores w (primary env) REFRESH_TOKEN_KEY)"
    using first run1 by (auto simp: truthy_def split: option.splits)
  have rt': "(if truthy (stores w1 (primary env) REFRESH_TOKEN_KEY)
              then stores w1 (primary env) REFRESH_TOKEN_KEY else None) = rt"
    unfolding sr rt by simp
  have eq: "\<lparr>user = user s, accessToken = accessToken s, refreshToken = rt, expiresAt = None\<rparr>
      = s\<lparr>refreshToken := rt, expiresAt := None\<rparr>"
    by simp
  note second = dispatch_checkAuth_restores [OF nf sw(1) nonempty(1) sw(2) nonempty(3) sw(3)
      nonempty(2) json fresh]
  show ?thesis
    using run2 r1 unfolding second rt' eq by auto
qed

theorem restoreSession_after_signIn_witness:
  "fst (dispatch_checkAuth scenario_env (signed_in scenario_env))
     = Fulfilled \<lparr>payload_session = session_T1\<lparr>expiresAt := None\<rparr>,
         payload_providerId = ''credentials''\<rparr>
   \<and> session (auth (snd (dispatch_checkAuth scenario_env (signed_in scenario_env))))
     = Some (session_T1\<lparr>expiresAt := None\<rparr>)"
proof -
  have nf: "\<And>b op k. fault scenario_env b op k = None"
    by (simp add: scenario_env_def)
  have prov: "getProvider (registry scenario_env) ''credentials''
      = Some (CredentialsProvider scenario_api credentials_config)"
    by (simp add: scenario_defs)
  have resp: "provider_signIn (CredentialsProvider scenario_api credentials_config) login
      = Inr \<lparr>success = True, response_session = Some session_T1, response_error = None\<rparr>"
    by (simp add: scenario_defs)
  have json: "JSON_parse scenario_env (JSON_stringify scenario_env (user session_T1))
      = Inr (user session_T1)"
    by (simp add: scenario_defs)
  have ne: "accessToken session_T1 \<noteq> []" "''credentials'' \<noteq> []"
    "JSON_stringify scenario_env (user session_T1) \<noteq> []"
    by (simp_all add: scenario_defs)
  have fresh: "\<not> isTokenExpired (date_now scenario_env) (user_expiresAt (user session_T1))"
    by (simp add: scenario_defs isTokenExpired_def)
  have rt: "Some ''R1'' = (if truthy (refreshToken session_T1) then refreshToken session_T1
      else if truthy (stores fresh_world (primary scenario_env) REFRESH_TOKEN_KEY)
           then stores fresh_world (primary scenario_env) REFRESH_TOKEN_KEY else None)"
    by (simp add: scenario_defs)
  have upd: "session_T1\<lparr>refreshToken := Some ''R1'', expiresAt := None\<rparr>
      = session_T1\<lparr>expiresAt := None\<rparr>"
    by (simp add: session_T1_def)
  show ?thesis
    using restoreSession_after_signIn [OF nf prov resp _ _ json ne fresh rt
        surjective_pairing surjective_pairing]
    by (simp add: signed_in_def upd)
qed

text \<open>The scenario's sign-in and restore, evaluated.\<close>

lemma signed_in_world:
  assumes nf: "\<And>b op k. fault env b op k = None"
    and prov: "getProvider (registry env) ''credentials'' = Some provider"
    and resp: "provider_signIn provider login = Inr response"
    and ok: "success response" "response_session response = Some s"
    and rt: "refreshToken s = Some r" "r \<noteq> []"
  shows "auth (signed_in env) = \<lparr>isAuthenticated = True, isLoading = False,
      session = Some s, providerId = Some ''credentials'', error = None\<rparr>"
    and "stores (signed_in env) (primary env) ACCESS_TOKEN_KEY = Some (accessToken s)"
    and "stores (signed_in env) (primary env) REFRESH_TOKEN_KEY = Some r"
    and "stores (signed_in env) (primary env) USER_KEY = Some (JSON_stringify env (user s))"
    and "stores (signed_in env) (primary env) PROVIDER_ID_KEY = Some ''credentials''"
    and "trace (signed_in env) = [Action ''auth/signIn/pending'',
      Call (primary env) SetOp ACCESS_TOKEN_KEY, Call (primary env) SetOp REFRESH_TOKEN_KEY,
      Call (primary env) SetOp USER_KEY, Call (primary env) SetOp PROVIDER_ID_KEY,
      Action ''auth/signIn/fulfilled'']"
  using rt
  by (simp_all add: signed_in_def dispatch_signIn_ok [OF nf prov resp ok] truthy_def
      fresh_world_def initialState_def)

lemma scenario_facts:
  assumes "env = scenario_env \<or> env = early_env"
  shows "\<And>b op k. fault env b op k = None"
    and "getProvider (registry env) ''credentials''
      = Some (CredentialsProvider scenario_api credentials_config)"
    and "provider_signIn (CredentialsProvider scenario_api credentials_config) login
      = Inr \<lparr>success = True, response_session = Some session_T1, response_error = None\<rparr>"
    and "JSON_parse env (JSON_stringify env user1) = Inr user1"
    and "JSON_stringify env user1 \<noteq> []"
    and "primary env = SecureStore"
  using assms by (auto simp: scenario_defs early_env_def)

lemma scenario_restore:
  assumes env: "env = scenario_env \<or> env = early_env"
  shows "session (auth (signed_in env)) = Some session_T1"
    and "dispatch_checkAuth env (signed_in env)
      = (Fulfilled \<lparr>payload_session = session_T1\<lparr>expiresAt := None\<rparr>,
           payload_providerId = ''credentials''\<rparr>,
         (signed_in env)\<lparr>auth := (auth (signed_in env))\<lparr>isLoading := False,
              isAuthenticated := True, session := Some (session_T1\<lparr>expiresAt := None\<rparr>),
              providerId := Some ''credentials''\<rparr>,
           trace := trace (signed_in env) @ [Action ''auth/checkAuth/pending'',
             Call SecureStore GetOp ACCESS_TOKEN_KEY, Call SecureStore GetOp REFRESH_TOKEN_KEY,
             Call SecureStore GetOp USER_KEY, Call SecureStore GetOp PROVIDER_ID_KEY,
             Action ''auth/checkAuth/fulfilled'']\<rparr>)"
proof -
  note f = scenario_facts [OF env]
  have rt: "refreshToken session_T1 = Some ''R1''" "''R1'' \<noteq> []"
    by (simp_all add: session_T1_def)
  note w = signed_in_world [OF f(1) f(2) f(3) _ _ rt, simplified]
  show "session (auth (signed_in env)) = Some session_T1" using w(1) by simp
  have u: "user session_T1 = user1" and a: "accessToken session_T1 = ''T1''"
    by (simp_all add: session_T1_def)
  have fresh: "\<not> isTokenExpired (date_now env) (user_expiresAt user1)"
    by (simp add: isTokenExpired_def user1_def)
  note r = dispatch_checkAuth_restores [OF f(1) w(2) _ w(4) _ w(5) _ _ fresh,
      unfolded u a, OF _ f(5) _ f(4)]
  have eq: "\<lparr>user = user1, accessToken = ''T1'', refreshToken = Some ''R1'',
      expiresAt = None\<rparr> = session_T1\<lparr>expiresAt := None\<rparr>"
    by (simp add: session_T1_def)
  show "dispatch_checkAuth env (signed_in env)
      = (Fulfilled \<lparr>payload_session = session_T1\<lparr>expiresAt := None\<rparr>,
           payload_providerId = ''credentials''\<rparr>,
         (signed_in env)\<lparr>auth := (auth (signed_in env))\<lparr>isLoading := False,
              isAuthenticated := True, session := Some (session_T1\<lparr>expiresAt := None\<rparr>),
              providerId := Some ''credentials''\<rparr>,
           trace := trace (signed_in env) @ [Action ''auth/checkAuth/pending'',
             Call SecureStore GetOp ACCESS_TOKEN_KEY, Call SecureStore GetOp REFRESH_TOKEN_KEY,
             Call SecureStore GetOp USER_KEY, Call SecureStore GetOp PROVIDER_ID_KEY,
             Action ''auth/checkAuth/fulfilled'']\<rparr>)"
    using r w(3) by (simp add: f(6) truthy_def eq)
qed

text \<open>
  The claim as stated fails: the scenario's session expires at \<open>9000\<close>; at time \<open>5000\<close>
  it is unexpired, and the session restored right after the sign-in has no \<open>expiresAt\<close>,
  so it is not the session that was signed in.
\<close>

theorem restoreSession_counterexample:
  "session (auth (signed_in early_env)) = Some session_T1
   \<and> expiresAt session_T1 = Some 9000
   \<and> date_now early_env = 5000
   \<and> fst (dispatch_checkAuth early_env (signed_in early_env))
     = Fulfilled \<lparr>payload_session = session_T1\<lparr>expiresAt := None\<rparr>,
         payload_providerId = ''credentials''\<rparr>
   \<and> session (auth (snd (dispatch_checkAuth early_env (signed_in early_env))))
     \<noteq> session (auth (signed_in early_env))"
  using scenario_restore [of early_env]
  by (simp add: session_T1_def early_env_def)

subsection \<open>Which sessions are persisted and exposed\<close>



















subsection \<open>Restoring an expired session\<close>




lemma checkAuth_thunk_failure:
  assumes "checkAuth_try env w = (Inl e, u)"
  shows "fst (checkAuth_thunk env w) \<noteq> Fulfilled q"
  using assms
  by (cases "clear_storage env u")
    (auto simp: checkAuth_thunk_def split: sum.splits)









subsection \<open>Two sign-ins in flight\<close>

text \<open>Whether a \<^verbatim>\<open>setItem\<close> or a provider call resolves does not depend on the world.\<close>

lemma bind_io_fst:
  assumes "\<And>w w'. fst (m w) = fst (m w')" and "\<And>x w w'. fst (f x w) = fst (f x w')"
  shows "fst (bind_io m f w) = fst (bind_io m f w')"
proof -
  obtain r1 u1 where a: "m w = (r1, u1)" by (cases "m w")
  obtain r2 u2 where b: "m w' = (r2, u2)" by (cases "m w'")
  have "r2 = r1" using assms(1) [of w w'] a b by simp
  with a b assms(2) show ?thesis by (cases r1) (simp_all add: bind_io_def)
qed

lemma catch_io_fst:
  assumes "\<And>w w'. fst (m w) = fst (m w')" and "\<And>x w w'. fst (h x w) = fst (h x w')"
  shows "fst (catch_io m h w) = fst (catch_io m h w')"
proof -
  obtain r1 u1 where a: "m w = (r1, u1)" by (cases "m w")
  obtain r2 u2 where b: "m w' = (r2, u2)" by (cases "m w'")
  have "r2 = r1" using assms(1) [of w w'] a b by simp
  with a b assms(2) show ?thesis by (cases r1) (simp_all add: catch_io_def)
qed

lemma setItem_fst: "fst (setItem env k v w) = fst (setItem env k v w')"
  unfolding setItem_def webStorage_setItem_def nativeStorage_setItem_def
  by (auto intro!: catch_io_fst simp: store_set_def Let_def split: option.splits)

text \<open>Run alone, the thread of \<^verbatim>\<open>signIn\<close> is the dispatch of \<^verbatim>\<open>signIn\<close>.\<close>

lemma run_await_then:
  "run (await_then m k) w = run (k (fst (m w))) (snd (m w))"
  by (simp add: await_then_def)

lemma run_settle: "run (settle type r out) w = (out, reduce type r w)"
  by (simp add: settle_def)

lemma run_signIn_reject:
  "run (signIn_reject e) w
    = (RejectedWithValue (or_else (Some (message e)) ''Authentication failed''),
       reduce ''auth/signIn/rejected''
         (signIn_rejected (Some (or_else (Some (message e)) ''Authentication failed''))) w)"
  by (simp add: signIn_reject_def run_settle)

lemma run_await_then_case:
  "run (await_then m k) w = (case m w of (r, w') \<Rightarrow> run (k r) w')"
  by (simp add: await_then_def split: prod.splits)

lemma run_await_return: "run (await_then (return_io x) k) w = run (k (Inr x)) w"
  by (simp add: await_then_def return_io_def)

lemma run_signIn_save_rest:
  "run (signIn_save_rest env s pid) w
    = (case bind_io (setItem env USER_KEY (JSON_stringify env (user s)))
              (\<lambda>_. setItem env PROVIDER_ID_KEY pid) w of
         (Inl e, w') \<Rightarrow> run (signIn_reject e) w'
       | (Inr x, w') \<Rightarrow>
           (Fulfilled \<lparr>payload_session = s, payload_providerId = pid\<rparr>,
            reduce ''auth/signIn/fulfilled''
              (signIn_fulfilled \<lparr>payload_session = s, payload_providerId = pid\<rparr>) w'))"
proof -
  obtain r1 w1 where a: "setItem env USER_KEY (JSON_stringify env (user s)) w = (r1, w1)"
    by (cases "setItem env USER_KEY (JSON_stringify env (user s)) w")
  obtain r2 w2 where b: "setItem env PROVIDER_ID_KEY pid w1 = (r2, w2)"
    by (cases "setItem env PROVIDER_ID_KEY pid w1")
  show ?thesis
    by (cases r1; cases r2)
      (simp_all add: signIn_save_rest_def run_await_then_case a b bind_io_def run_settle)
qed

lemma run_signIn_save:
  "run (await_then (setItem env ACCESS_TOKEN_KEY (accessToken s)) (\<lambda>r.
          case r of
            Inl e \<Rightarrow> signIn_reject e
          | Inr _ \<Rightarrow>
              (case refreshToken s of
                 None \<Rightarrow> signIn_save_rest env s pid
               | Some rt \<Rightarrow>
                   if rt = [] then signIn_save_rest env s pid
                   else
                     await_then (setItem env REFRESH_TOKEN_KEY rt) (\<lambda>r.
                       case r of
                         Inl e \<Rightarrow> signIn_reject e
                       | Inr _ \<Rightarrow> signIn_save_rest env s pid)))) w
    = (case save_auth_data env s pid w of
         (Inl e, w') \<Rightarrow> run (signIn_reject e) w'
       | (Inr x, w') \<Rightarrow>
           (Fulfilled \<lparr>payload_session = s, payload_providerId = pid\<rparr>,
            reduce ''auth/signIn/fulfilled''
              (signIn_fulfilled \<lparr>payload_session = s, payload_providerId = pid\<rparr>) w'))"
proof -
  obtain r1 w1 where a: "setItem env ACCESS_TOKEN_KEY (accessToken s) w = (r1, w1)"
    by (cases "setItem env ACCESS_TOKEN_KEY (accessToken s) w")
  show ?thesis
  proof (cases r1)
    case (Inl e)
    then show ?thesis
      by (simp add: run_await_then_case a save_auth_data_def bind_io_def)
  next
    case (Inr x)
    show ?thesis
    proof (cases "refreshToken s = None \<or> refreshToken s = Some []")
      case True
      then show ?thesis
        using Inr
        by (auto simp: run_await_then_case a save_auth_data_def run_signIn_save_rest
            bind_io_def [of "setItem env ACCESS_TOKEN_KEY (accessToken s)"]
            bind_io_return)
    next
      case False
      then obtain rt where rt: "refreshToken s = Some rt" "rt \<noteq> []" by auto
      obtain r2 w2 where b: "setItem env REFRESH_TOKEN_KEY rt w1 = (r2, w2)"
        by (cases "setItem env REFRESH_TOKEN_KEY rt w1")
      show ?thesis
        using Inr rt
        by (cases r2)
          (simp_all add: run_await_then_case a b save_auth_data_def run_signIn_save_rest
            bind_io_def [of "setItem env ACCESS_TOKEN_KEY (accessToken s)"]
            bind_io_def [of "setItem env REFRESH_TOKEN_KEY rt"])
    qed
  qed
qed

lemma run_signIn_thread:
  "run (signIn_thread env pid c) w = dispatch_signIn env pid c w"
proof (cases "getProvider (registry env) pid")
  case None
  then show ?thesis
    by (simp add: signIn_thread_def run_signIn_reject dispatch_signIn_def signIn_thunk_def
        signIn_try_def throw_io_def)
next
  case (Some provider)
  let ?w1 = "reduce ''auth/signIn/pending'' signIn_pending w"
  show ?thesis
  proof (cases "provider_signIn provider c")
    case (Inl m)
    then show ?thesis
      using Some
      by (simp add: signIn_thread_def run_await_then_case run_signIn_reject dispatch_signIn_def
          signIn_thunk_def signIn_try_def throw_io_def await_def bind_io_def)
  next
    case (Inr response)
    show ?thesis
    proof (cases "response_session response = None \<or> \<not> success response")
      case True
      then show ?thesis
        using Some Inr
        by (auto simp: signIn_thread_def run_await_then_case run_signIn_reject
            dispatch_signIn_def signIn_thunk_def signIn_try_def throw_io_def await_def
            bind_io_def return_io_def split: option.splits)
    next
      case False
      then obtain s where s: "response_session response = Some s" "success response" by auto
      obtain r u where sv: "save_auth_data env s pid ?w1 = (r, u)"
        by (cases "save_auth_data env s pid ?w1")
      have thr: "run (signIn_thread env pid c) w
        = (case save_auth_data env s pid ?w1 of
             (Inl e, w') \<Rightarrow> run (signIn_reject e) w'
           | (Inr x, w') \<Rightarrow>
               (Fulfilled \<lparr>payload_session = s, payload_providerId = pid\<rparr>,
                reduce ''auth/signIn/fulfilled''
                  (signIn_fulfilled \<lparr>payload_session = s, payload_providerId = pid\<rparr>) w'))"
        using Some Inr s
        by (simp add: signIn_thread_def run_await_return await_def run_signIn_save)
      show ?thesis
        unfolding thr using Some Inr s sv
        by (cases r)
          (simp_all add: run_signIn_reject dispatch_signIn_def signIn_thunk_def signIn_try_def
            await_def bind_io_def return_io_def)
    qed
  qed
qed

text \<open>
  The thread of \<^verbatim>\<open>signIn\<close> is blind, so its outcome is the same under every
  interleaving with another blind thread.
\<close>

lemma blind_await_then:
  assumes "\<And>w w'. fst (m w) = fst (m w')" and "\<And>r. blind (k r)"
  shows "blind (await_then m k)"
  unfolding await_then_def
proof (rule blind_Suspended)
  fix w w' show "k (fst (m w)) = k (fst (m w'))" using assms(1) [of w w'] by simp
next
  fix w show "blind (k (fst (m w)))" using assms(2) .
qed

lemma blind_settle: "blind (settle type r out)"
  unfolding settle_def by (rule blind_Suspended) (simp_all add: blind_Settled)

lemma blind_signIn_reject: "blind (signIn_reject e)"
  unfolding signIn_reject_def by (rule blind_settle)

lemma blind_signIn_save_rest: "blind (signIn_save_rest env s pid)"
  unfolding signIn_save_rest_def
  by (intro blind_await_then setItem_fst)
     (auto split: sum.splits intro!: blind_await_then setItem_fst blind_signIn_reject blind_settle)

lemma await_fst: "fst (await p w) = fst (await p w')"
  by (simp add: await_def throw_io_def return_io_def split: sum.splits)

lemma blind_signIn_thread: "blind (signIn_thread env pid c)"
  unfolding signIn_thread_def
  by (rule blind_Suspended)
     (auto split: option.splits sum.splits
       intro!: blind_await_then setItem_fst await_fst blind_signIn_reject
         blind_signIn_save_rest)

lemma blind_run:
  assumes "blind t"
  shows "fst (run t w) = fst (run t w')"
  using assms
proof (induction t arbitrary: w w' rule: blind.induct)
  case (blind_Settled a)
  show ?case by simp
next
  case (blind_Suspended rest effect)
  have e: "rest w = rest w'" using blind_Suspended.hyps(1) .
  have "fst (run (rest w') (effect w)) = fst (run (rest w') (effect w'))"
    using blind_Suspended.IH by blast
  then show ?case by (simp add: e)
qed

lemma blind_advance:
  assumes "blind t" and "advance t w = (t', w')"
  shows "blind t'" and "fst (run t' u) = fst (run t u')"
proof -
  show "blind t'"
    using assms by (cases t rule: blind.cases) (auto simp: blind.intros)
  show "fst (run t' u) = fst (run t u')"
  proof (cases t)
    case (Settled a)
    then show ?thesis using assms(2) by auto
  next
    case (Suspended effect rest)
    then have t': "t' = rest w" using assms(2) by simp
    from assms(1) Suspended have same: "\<And>x y. rest x = rest y" and b: "\<And>x. blind (rest x)"
      by (auto elim: blind.cases)
    have "fst (run t u') = fst (run (rest u') (effect u'))" using Suspended by simp
    also have "\<dots> = fst (run (rest w) (effect u'))" using same [of u' w] by simp
    also have "\<dots> = fst (run (rest w) u)" using blind_run [OF b] by blast
    finally show ?thesis using t' by simp
  qed
qed

lemma interleave_blind:
  assumes "blind t1" and "blind t2"
    and "interleave schedule t1 t2 w = ((Settled r1, Settled r2), w')"
  shows "r1 = fst (run t1 u1) \<and> r2 = fst (run t2 u2)"
  using assms
proof (induction schedule arbitrary: t1 t2 w)
  case Nil
  then show ?case by simp
next
  case (Cons first schedule)
  show ?case
  proof (cases first)
    case True
    obtain t1' w1 where a: "advance t1 w = (t1', w1)" by (cases "advance t1 w")
    note b = blind_advance [OF Cons.prems(1) a]
    have "interleave schedule t1' t2 w1 = ((Settled r1, Settled r2), w')"
      using Cons.prems(3) True a by simp
    from Cons.IH [OF b(1) Cons.prems(2) this] show ?thesis
      using b(2) [of u1 u1] by simp
  next
    case False
    obtain t2' w1 where a: "advance t2 w = (t2', w1)" by (cases "advance t2 w")
    note b = blind_advance [OF Cons.prems(2) a]
    have "interleave schedule t1 t2' w1 = ((Settled r1, Settled r2), w')"
      using Cons.prems(3) False a by simp
    from Cons.IH [OF Cons.prems(1) b(1) this] show ?thesis
      using b(2) [of u2 u2] by simp
  qed
qed


lemma advance_await_then: "advance (await_then m k) w = (k (fst (m w)), snd (m w))"
  by (simp add: await_then_def)

lemma advance_signIn_thread_pending:
  assumes "advance (signIn_thread env pid c) w0 = (t, w)"
  shows "isLoading (auth w)"
  using assms by (auto simp: signIn_thread_def reduce_def signIn_pending_def)

text \<open>
  Claim C1, as the code has it. \<^verbatim>\<open>signIn\<close> has no single-flight gate. Let a first
  \<^verbatim>\<open>signIn\<close> be in flight (its \<^verbatim>\<open>pending\<close> action dispatched, so \<open>isLoading\<close> holds)
  and let a second one be dispatched, the two then advancing between their awaits in any
  order until both have settled. The second is neither rejected as in progress nor queued
  nor dropped: it settles with the outcome it would have alone, which is \<^verbatim>\<open>fulfilled\<close>
  with the provider's session whenever the provider answers with one and no storage call
  fails. The first settles with the outcome it would have alone as well.
\<close>

theorem signIn_admitted_while_in_flight:
  assumes first: "advance (signIn_thread env pid1 c1) w0 = (t1, w)"
    and both: "interleave schedule t1 (signIn_thread env pid2 c2) w
      = ((Settled r1, Settled r2), w')"
  shows "isLoading (auth w)
    \<and> r1 = fst (dispatch_signIn env pid1 c1 w0)
    \<and> r2 = fst (dispatch_signIn env pid2 c2 w)
    \<and> (\<forall>provider response s.
          (\<forall>b op k. fault env b op k = None)
          \<and> getProvider (registry env) pid2 = Some provider
          \<and> provider_signIn provider c2 = Inr response
          \<and> success response \<and> response_session response = Some s
          \<longrightarrow> r2 = Fulfilled \<lparr>payload_session = s, payload_providerId = pid2\<rparr>)"
proof -
  note b1 = blind_advance [OF blind_signIn_thread first]
  from interleave_blind [OF b1(1) blind_signIn_thread both, of w0 w]
  have r1: "r1 = fst (run t1 w0)" and r2: "r2 = fst (run (signIn_thread env pid2 c2) w)"
    by simp_all
  have r1': "r1 = fst (dispatch_signIn env pid1 c1 w0)"
    using r1 b1(2) [of w0 w0] by (simp add: run_signIn_thread)
  have r2': "r2 = fst (dispatch_signIn env pid2 c2 w)"
    using r2 by (simp add: run_signIn_thread)
  have ful: "r2 = Fulfilled \<lparr>payload_session = s, payload_providerId = pid2\<rparr>"
    if "\<forall>b op k. fault env b op k = None"
      and "getProvider (registry env) pid2 = Some provider"
      and "provider_signIn provider c2 = Inr response"
      and "success response" and "response_session response = Some s"
    for provider response s
  proof -
    have nf: "\<And>b op k. fault env b op k = None" using that(1) by simp
    show ?thesis
      unfolding r2' using dispatch_signIn_ok [OF nf that(2) that(3) that(4) that(5)] by simp
  qed
  show ?thesis
    using advance_signIn_thread_pending [OF first] r1' r2' ful by blast
qed

theorem signIn_admitted_while_in_flight_witness:
  "isLoading (auth (snd (advance (signIn_thread scenario_env ''credentials'' login) fresh_world)))
   \<and> fst (interleave
        [False, True, False, True, False, True, False, True, False, True, False, True, False]
        (fst (advance (signIn_thread scenario_env ''credentials'' login) fresh_world))
        (signIn_thread scenario_env ''credentials'' login)
        (snd (advance (signIn_thread scenario_env ''credentials'' login) fresh_world)))
     = (Settled (Fulfilled \<lparr>payload_session = session_T1,
            payload_providerId = ''credentials''\<rparr>),
        Settled (Fulfilled \<lparr>payload_session = session_T1,
            payload_providerId = ''credentials''\<rparr>))"
proof -
  note f = scenario_facts [of scenario_env, simplified]
  have rt: "refreshToken session_T1 = Some ''R1''" by (simp add: session_T1_def)
  have ev: "fst (interleave
        [False, True, False, True, False, True, False, True, False, True, False, True, False]
        (fst (advance (signIn_thread scenario_env ''credentials'' login) fresh_world))
        (signIn_thread scenario_env ''credentials'' login)
        (snd (advance (signIn_thread scenario_env ''credentials'' login) fresh_world)))
     = (Settled (Fulfilled \<lparr>payload_session = session_T1,
            payload_providerId = ''credentials''\<rparr>),
        Settled (Fulfilled \<lparr>payload_session = session_T1,
            payload_providerId = ''credentials''\<rparr>))"
    by (simp add: signIn_thread_def signIn_save_rest_def settle_def advance_await_then
        f(2) f(3) rt setItem_ok [OF f(1)] await_def return_io_def)
  then obtain w' where both: "interleave
        [False, True, False, True, False, True, False, True, False, True, False, True, False]
        (fst (advance (signIn_thread scenario_env ''credentials'' login) fresh_world))
        (signIn_thread scenario_env ''credentials'' login)
        (snd (advance (signIn_thread scenario_env ''credentials'' login) fresh_world))
     = ((Settled (Fulfilled \<lparr>payload_session = session_T1,
            payload_providerId = ''credentials''\<rparr>),
        Settled (Fulfilled \<lparr>payload_session = session_T1,
            payload_providerId = ''credentials''\<rparr>)), w')"
    by (metis prod.collapse)
  show ?thesis
    using ev signIn_admitted_while_in_flight [OF surjective_pairing both] by simp
qed

text \<open>
  The claim as stated fails: with a first \<^verbatim>\<open>signIn\<close> pending, a second one with valid
  credentials is fulfilled, not rejected.
\<close>

theorem second_signIn_counterexample:
  "isLoading (auth (reduce ''auth/signIn/pending'' signIn_pending fresh_world))
   \<and> fst (dispatch_signIn scenario_env ''credentials'' login
         (reduce ''auth/signIn/pending'' signIn_pending fresh_world))
     = Fulfilled \<lparr>payload_session = session_T1, payload_providerId = ''credentials''\<rparr>
   \<and> isAuthenticated (auth (snd (dispatch_signIn scenario_env ''credentials'' login
         (reduce ''auth/signIn/pending'' signIn_pending fresh_world))))"
  by (simp add: scenario_defs run_defs)

end
